theory Spec2Isabelle
  imports Main "HOL-Library.Sublist"
begin

section \<open>JavaScript strings\<close>

text \<open>
  A JavaScript string is modelled as a \<^typ>\<open>string\<close>; a \<^typ>\<open>char\<close> stands for one
  UTF-16 code unit below 256. In that range the white space that
  \<^verbatim>\<open>String.prototype.trim\<close> removes is TAB, LF, VT, FF, CR, SPACE and NBSP, and
  \<^verbatim>\<open>toLowerCase\<close> moves A-Z and the Latin-1 capitals (0xC0-0xDE except 0xD7) up by 32.
\<close>

definition js_whitespace :: "char \<Rightarrow> bool" where
  "js_whitespace c \<longleftrightarrow> (of_char c :: nat) \<in> {9, 10, 11, 12, 13, 32, 160}"

definition js_trim :: "string \<Rightarrow> string" where
  "js_trim s = rev (dropWhile js_whitespace (rev (dropWhile js_whitespace s)))"

definition js_lower_char :: "char \<Rightarrow> char" where
  "js_lower_char c =
     (let n = (of_char c :: nat) in
      if (65 \<le> n \<and> n \<le> 90) \<or> (192 \<le> n \<and> n \<le> 222 \<and> n \<noteq> 215)
      then char_of (n + 32) else c)"

definition js_toLowerCase :: "string \<Rightarrow> string" where
  "js_toLowerCase s = map js_lower_char s"

text \<open>\<^verbatim>\<open>haystack.indexOf(needle)\<close>: the index of the first occurrence, if any.\<close>

fun find_sub :: "string \<Rightarrow> string \<Rightarrow> nat option" where
  "find_sub pat [] = (if pat = [] then Some 0 else None)"
| "find_sub pat (c # cs) =
     (if prefix pat (c # cs) then Some 0 else map_option Suc (find_sub pat cs))"

section \<open>Stripping the thinking spans (chat, index.js lines 1692 and 1729)\<close>

definition open_tag :: string where
  "open_tag = ''<think>''"

definition close_tag :: string where
  "close_tag = ''</think>''"

text \<open>
  \<^verbatim>\<open>s.replace(/<think>[\s\S]*?<\/think>/g, "")\<close>. The global replace scans from the left.
  At a position where \<^verbatim>\<open><think>\<close> starts and a \<^verbatim>\<open></think>\<close> follows, the lazy
  quantifier ends the match at the first such closer, the match is dropped and the scan
  goes on behind it; at any other position the character is copied.
\<close>

function strip_closed :: "string \<Rightarrow> string" where
  "strip_closed s =
     (if s = [] then []
      else if prefix open_tag s then
        (case find_sub close_tag (drop (length open_tag) s) of
           Some k \<Rightarrow> strip_closed (drop (length open_tag + k + length close_tag) s)
         | None \<Rightarrow> hd s # strip_closed (tl s))
      else hd s # strip_closed (tl s))"
  by pat_completeness auto
termination
proof (relation "measure length")
  show "wf (measure length)" by simp
next
  fix s :: string and k
  assume "s \<noteq> []"
  then show "(drop (length open_tag + k + length close_tag) s, s) \<in> measure length"
    by (cases s) (auto simp: open_tag_def)
next
  fix s :: string
  assume "s \<noteq> []"
  then show "(tl s, s) \<in> measure length" by (cases s) auto
next
  fix s :: string
  assume "s \<noteq> []"
  then show "(tl s, s) \<in> measure length" by (cases s) auto
qed

declare strip_closed.simps [simp del]

text \<open>
  \<^verbatim>\<open>s.replace(/<think>[\s\S]*/g, "")\<close>: the greedy match runs from the first
  \<^verbatim>\<open><think>\<close> to the end of the text.
\<close>

definition strip_open :: "string \<Rightarrow> string" where
  "strip_open s = (case find_sub open_tag s of Some k \<Rightarrow> take k s | None \<Rightarrow> s)"

text \<open>The whole chain of line 1729: both replacements, then \<^verbatim>\<open>trim()\<close>.\<close>

definition clean_content :: "string \<Rightarrow> string" where
  "clean_content s = js_trim (strip_open (strip_closed s))"

text \<open>
  A text written as regular pieces alternating with closed thinking spans: each pair
  \<open>(a, b)\<close> stands for the regular text \<open>a\<close> followed by \<^verbatim>\<open><think>b</think>\<close>, and
  \<open>t\<close> is what follows the last span.
\<close>

fun render :: "(string \<times> string) list \<Rightarrow> string \<Rightarrow> string" where
  "render [] t = t"
| "render ((a, b) # ps) t = a @ open_tag @ b @ close_tag @ render ps t"

definition outside :: "(string \<times> string) list \<Rightarrow> string \<Rightarrow> string" where
  "outside ps t = concat (map fst ps) @ t"

section \<open>Numbers and lists as text\<close>

text \<open>The decimal text of a non-negative integer, as a template literal prints it.\<close>

function show_nat :: "nat \<Rightarrow> string" where
  "show_nat n =
     (if n < 10 then [char_of (48 + n)]
      else show_nat (n div 10) @ [char_of (48 + n mod 10)])"
  by pat_completeness auto
termination
  by (relation "measure id") auto

declare show_nat.simps [simp del]

text \<open>\<^verbatim>\<open>Array.prototype.join\<close>.\<close>

fun js_join :: "string \<Rightarrow> string list \<Rightarrow> string" where
  "js_join sep [] = []"
| "js_join sep [x] = x"
| "js_join sep (x # y # ys) = x @ sep @ js_join sep (y # ys)"

definition newline :: char where
  "newline = CHR 0x0A"

text \<open>\<^verbatim>\<open>s.split("\n").join("\n  ")\<close>: every line feed is followed by two spaces.\<close>

definition reindent :: "string \<Rightarrow> string" where
  "reindent s = concat (map (\<lambda>c. if c = newline then newline # ''  '' else [c]) s)"

text \<open>\<^verbatim>\<open>s.split("\n").length\<close>.\<close>

definition lineCount :: "string \<Rightarrow> nat" where
  "lineCount s = Suc (length (filter (\<lambda>c. c = newline) s))"

section \<open>The session and the slash commands\<close>

datatype role = System | User | Assistant

record message =
  role :: role
  content :: string

text \<open>The object \<^verbatim>\<open>ctx\<close> of \<^verbatim>\<open>repl\<close> (index.js lines 1926-1931).\<close>

record session =
  messages :: "message list"
  totalTokens :: int
  promptTokens :: int
  completionTokens :: int

definition SLASH_COMMANDS :: "(string \<times> string) list" where
  "SLASH_COMMANDS =
    [(''/help'', ''Show available commands and usage''),
     (''/clear'', ''Clear the terminal screen''),
     (''/agents'', ''Show system status and health''),
     (''/config'', ''Show configuration and paths''),
     (''/model'', ''Show current AI model''),
     (''/tree'', ''Show project file tree''),
     (''/cost'', ''Show token usage this session''),
     (''/compact'', ''Truncate conversation to save context''),
     (''/new'', ''Start a new conversation''),
     (''/exit'', ''Exit Chalk'')]"

text \<open>
  What a branch of \<^verbatim>\<open>handleSlashCommand\<close> does besides changing the session. The
  texts that depend on the configuration, the project scan or the agents dialog are kept
  as named effects; the fixed messages are printed as they are in the source (the
  colouring by \<^verbatim>\<open>chalk\<close> is left out everywhere).
\<close>

datatype effect =
    Print string
  | HelpText
  | ClearScreen
  | AgentsDialog
  | ConfigText
  | ModelText
  | TreeText
  | CostText int int int
  | ExitProcess

text \<open>\<^verbatim>\<open>arr.slice(-4)\<close>.\<close>

definition slice_last4 :: "'a list \<Rightarrow> 'a list" where
  "slice_last4 xs = drop (length xs - 4) xs"

text \<open>
  \<^verbatim>\<open>handleSlashCommand(command, ctx)\<close>, index.js lines 1553-1634. The configuration
  that \<^verbatim>\<open>loadConfig()\<close> reads at its start is used by the texts of \<^verbatim>\<open>/config\<close> and
  \<^verbatim>\<open>/model\<close> only. The first copy of the function in the file (lines 392-479) has the
  same \<^verbatim>\<open>/compact\<close>, \<^verbatim>\<open>/new\<close> and \<^verbatim>\<open>/cost\<close> branches.
\<close>

definition handleSlashCommand :: "string \<Rightarrow> session \<Rightarrow> session \<times> effect list" where
  "handleSlashCommand command ctx =
     (if command = ''/help'' then (ctx, [HelpText])
      else if command = ''/clear'' then (ctx, [ClearScreen])
      else if command = ''/agents'' then (ctx, [AgentsDialog])
      else if command = ''/config'' then (ctx, [ConfigText])
      else if command = ''/model'' then (ctx, [ModelText])
      else if command = ''/tree'' then (ctx, [TreeText])
      else if command = ''/cost'' then
        (ctx, [CostText (totalTokens ctx) (promptTokens ctx) (completionTokens ctx)])
      else if command = ''/compact'' then
        (if length (messages ctx) > 6 then
           (let kept = slice_last4 (messages ctx) in
            (ctx\<lparr>messages := kept\<rparr>,
             [Print (''  Compacted. Kept last '' @ show_nat (length kept) @ '' messages.'')]))
         else (ctx, [Print ''  Conversation is already short.'']))
      else if command = ''/new'' then
        (ctx\<lparr>messages := [], totalTokens := 0, promptTokens := 0, completionTokens := 0\<rparr>,
         [Print ''  New conversation started.''])
      else if command = ''/exit'' then (ctx, [Print ''  Goodbye!'', ExitProcess])
      else (ctx, [Print (''  Unknown command: '' @ command)]))"

text \<open>What the REPL does with a typed line that starts with a slash.\<close>

datatype slash_action =
    Dispatch string
  | Report string
  | OpenMenu

text \<open>
  \<^verbatim>\<open>repl\<close>, second copy (index.js lines 1950-1957): the line arrived with
  \<^verbatim>\<open>isSlash\<close> false and starts with a slash.
\<close>

definition repl_slash :: "string \<Rightarrow> slash_action" where
  "repl_slash text =
     (case find (\<lambda>c. fst c = text) SLASH_COMMANDS of
        Some match \<Rightarrow> Dispatch (fst match)
      | None \<Rightarrow>
          (let partial = filter (\<lambda>c. prefix text (fst c)) SLASH_COMMANDS in
           if length partial = 1 then Dispatch (fst (hd partial))
           else Report (''  Unknown command: '' @ text @ ''. Type / to see all.'')))"

text \<open>\<^verbatim>\<open>repl\<close>, first copy (index.js lines 715-738).\<close>

definition repl_slash_first :: "string \<Rightarrow> slash_action" where
  "repl_slash_first input =
     (if input = ''/'' then OpenMenu
      else case find (\<lambda>c. fst c = input) SLASH_COMMANDS of
        Some match \<Rightarrow> Dispatch (fst match)
      | None \<Rightarrow>
          (let partial = filter (\<lambda>c. prefix input (fst c)) SLASH_COMMANDS in
           if length partial = 1 then Dispatch (fst (hd partial))
           else if length partial > 1 then
             Report (''  Ambiguous. Did you mean: '' @ js_join '', '' (map fst partial) @ ''?'')
           else Report (''  Unknown command: '' @ input @ ''. Type / to see all commands.'')))"

section \<open>The world outside the program\<close>

text \<open>
  How a call into the host ends: it returns a value, it throws, or it waits for input
  that never comes (a promise that is never resolved).
\<close>

datatype 'a outcome = Returned 'a | Threw string | Stalled

text \<open>
  The value of a tool call's arguments once parsed. The tool schemas of
  \<^verbatim>\<open>TOOL_DEFINITIONS\<close> declare the properties \<^verbatim>\<open>command\<close>, \<^verbatim>\<open>filepath\<close> and
  \<^verbatim>\<open>content\<close> as strings, so a parsed value is \<^verbatim>\<open>null\<close> (or \<^verbatim>\<open>undefined\<close>), or a
  value whose properties are strings where present, given as the list of its properties;
  a property that is absent reads as \<^verbatim>\<open>undefined\<close>, here \<open>None\<close>.
\<close>

datatype parsed = Nullish | Object "(string \<times> string) list"

datatype exec_outcome =
    ExecOk string
  | ExecErr "string option" "string option" string

text \<open>
  The library functions the tools call. \<^verbatim>\<open>JSON.parse\<close> gives \<open>None\<close> where it
  throws. \<^verbatim>\<open>execSync\<close> returns the standard output or throws an error that may carry
  \<^verbatim>\<open>stdout\<close> and \<^verbatim>\<open>stderr\<close> and has a \<^verbatim>\<open>message\<close>; its outcome may depend on how
  many commands ran before. \<^verbatim>\<open>writeFile\<close> stands for lines 1140-1142 (\<^verbatim>\<open>existsSync\<close>,
  \<^verbatim>\<open>mkdirSync\<close>, \<^verbatim>\<open>writeFileSync\<close>): \<open>None\<close> when they succeed, the message of the
  error otherwise.
\<close>

record host =
  json_parse :: "string \<Rightarrow> parsed option"
  path_resolve :: "string \<Rightarrow> string"
  execSync :: "nat \<Rightarrow> string option \<Rightarrow> exec_outcome"
  writeFile :: "nat \<Rightarrow> string \<Rightarrow> string \<Rightarrow> string option"

datatype api_message =
    Plain role string
  | AssistantCalls "string option" "tool_call list"
  | ToolMessage string string
and tool_call = ToolCall string string raw_arguments
and raw_arguments = ArgText string | ArgValue parsed

text \<open>\<^verbatim>\<open>tc.id\<close>, \<^verbatim>\<open>tc.function.name\<close> and \<^verbatim>\<open>tc.function.arguments\<close>.\<close>

fun call_id :: "tool_call \<Rightarrow> string" where
  "call_id (ToolCall i n a) = i"

fun function_name :: "tool_call \<Rightarrow> string" where
  "function_name (ToolCall i n a) = n"

fun function_arguments :: "tool_call \<Rightarrow> raw_arguments" where
  "function_arguments (ToolCall i n a) = a"

text \<open>
  The terminal and the machine as the chat loop and the tools see them: the lines printed
  so far, the lines the user will still type at a confirmation, the commands handed to
  \<^verbatim>\<open>execSync\<close>, the files written, and the message lists sent to the model.
\<close>

record world =
  out :: "string list"
  answers :: "string list"
  ran :: "string option list"
  written :: "(string \<times> string) list"
  requests :: "api_message list list"

definition console_log :: "string \<Rightarrow> world \<Rightarrow> world" where
  "console_log line w = w\<lparr>out := out w @ [line]\<rparr>"

section \<open>Tools (index.js lines 1093-1162)\<close>

record tool_result =
  tool_output :: string
  success :: bool

text \<open>
  \<^verbatim>\<open>ask(question)\<close>: the question is written, and the next line typed is returned
  trimmed and in lower case. When no line comes the promise stays pending.
\<close>

definition ask :: "string \<Rightarrow> world \<Rightarrow> string outcome \<times> world" where
  "ask question w =
     (case answers w of
        [] \<Rightarrow> (Stalled, console_log question w)
      | answer # rest \<Rightarrow>
          (Returned (js_toLowerCase (js_trim answer)), (console_log question w)\<lparr>answers := rest\<rparr>))"

text \<open>\<^verbatim>\<open>`${x}`\<close> for a string or \<^verbatim>\<open>undefined\<close>.\<close>

definition template :: "string option \<Rightarrow> string" where
  "template x = (case x of None \<Rightarrow> ''undefined'' | Some s \<Rightarrow> s)"

text \<open>\<^verbatim>\<open>err.stdout?.toString().trim() || ""\<close>.\<close>

definition trimmed_or_empty :: "string option \<Rightarrow> string" where
  "trimmed_or_empty x = (case x of None \<Rightarrow> [] | Some s \<Rightarrow> js_trim s)"

definition execToolRun :: "host \<Rightarrow> string option \<Rightarrow> world \<Rightarrow> tool_result outcome \<times> world" where
  "execToolRun h command w =
     (case ask ''  Run this command? (Y/n) '' (console_log (newline # ''  $ '' @ template command) w) of
        (Threw e, w1) \<Rightarrow> (Threw e, w1)
      | (Stalled, w1) \<Rightarrow> (Stalled, w1)
      | (Returned answer, w1) \<Rightarrow>
          if answer = ''n'' \<or> answer = ''no'' then
            (Returned \<lparr>tool_output = ''User denied command execution.'', success = False\<rparr>, w1)
          else
            (let w2 = w1\<lparr>ran := ran w1 @ [command]\<rparr> in
             case execSync h (length (ran w1)) command of
               ExecOk result \<Rightarrow>
                 (let trimmed = js_trim result in
                  if trimmed \<noteq> [] then
                    (Returned \<lparr>tool_output = trimmed, success = True\<rparr>,
                     console_log (''  '' @ reindent trimmed) w2)
                  else
                    (Returned \<lparr>tool_output = ''(completed, no output)'', success = True\<rparr>,
                     console_log ''  (completed, no output)'' w2))
             | ExecErr err_stdout err_stderr err_message \<Rightarrow>
                 (let stderr = trimmed_or_empty err_stderr;
                      stdout = trimmed_or_empty err_stdout;
                      joined = js_join [newline] (filter (\<lambda>x. x \<noteq> []) [stdout, stderr]);
                      msg = (if joined \<noteq> [] then joined else err_message)
                  in (Returned \<lparr>tool_output = msg, success = False\<rparr>,
                      console_log (''  '' @ reindent msg) w2))))"

text \<open>
  \<^verbatim>\<open>execToolEdit(filepath, content)\<close>. Lines 1132 and 1133 run before the \<^verbatim>\<open>try\<close>:
  \<^verbatim>\<open>path.resolve(undefined)\<close> and \<^verbatim>\<open>undefined.split\<close> throw a TypeError there.
\<close>

definition execToolEdit ::
  "host \<Rightarrow> string option \<Rightarrow> string option \<Rightarrow> world \<Rightarrow> tool_result outcome \<times> world" where
  "execToolEdit h filepath file_content w =
     (case filepath of
        None \<Rightarrow> (Threw ''TypeError: the path must be of type string'', w)
      | Some fp \<Rightarrow>
     (case file_content of
        None \<Rightarrow> (Threw ''TypeError: cannot read properties of undefined (reading split)'', w)
      | Some text \<Rightarrow>
          (let resolved = path_resolve h fp;
               lines = show_nat (lineCount text);
               w0 = console_log (newline # ''  Write: '' @ resolved @ '' ('' @ lines @ '' lines)'') w
           in case ask ''  Write this file? (Y/n) '' w0 of
                (Threw e, w1) \<Rightarrow> (Threw e, w1)
              | (Stalled, w1) \<Rightarrow> (Stalled, w1)
              | (Returned answer, w1) \<Rightarrow>
                  if answer = ''n'' \<or> answer = ''no'' then
                    (Returned \<lparr>tool_output = ''User denied file write.'', success = False\<rparr>, w1)
                  else
                    (case writeFile h (length (written w1)) resolved text of
                       None \<Rightarrow>
                         (let msg = ''File written: '' @ resolved @ '' ('' @ lines @ '' lines)''
                          in (Returned \<lparr>tool_output = msg, success = True\<rparr>,
                              console_log (''  '' @ msg) (w1\<lparr>written := written w1 @ [(resolved, text)]\<rparr>)))
                     | Some err_message \<Rightarrow>
                         (let msg = ''Failed to write: '' @ err_message
                          in (Returned \<lparr>tool_output = msg, success = False\<rparr>,
                              console_log (''  '' @ msg) w1))))))"

text \<open>
  \<^verbatim>\<open>dispatchTool(name, args)\<close>. Reading \<^verbatim>\<open>args.command\<close> of \<^verbatim>\<open>null\<close> throws.
\<close>

definition dispatchTool :: "host \<Rightarrow> string \<Rightarrow> parsed \<Rightarrow> world \<Rightarrow> tool_result outcome \<times> world" where
  "dispatchTool h name args w =
     (if name = ''tool_run'' then
        (case args of
           Nullish \<Rightarrow> (Threw ''TypeError: cannot read properties of null (reading command)'', w)
         | Object props \<Rightarrow> execToolRun h (map_of props ''command'') w)
      else if name = ''tool_edit'' then
        (case args of
           Nullish \<Rightarrow> (Threw ''TypeError: cannot read properties of null (reading filepath)'', w)
         | Object props \<Rightarrow> execToolEdit h (map_of props ''filepath'') (map_of props ''content'') w)
      else (Returned \<lparr>tool_output = ''Unknown tool: '' @ name, success = False\<rparr>, w))"

section \<open>The chat loop (index.js lines 1638-1748)\<close>

text \<open>
  The response body, as the loop reads it: \<^verbatim>\<open>data.choices?.[0]\<close>,
  \<^verbatim>\<open>choice.message.content\<close>, \<^verbatim>\<open>choice.message.tool_calls\<close>,
  \<^verbatim>\<open>choice.finish_reason\<close> and \<^verbatim>\<open>data.usage\<close>. An absent or \<^verbatim>\<open>null\<close> field is
  \<open>None\<close>; \<^verbatim>\<open>tool_calls\<close> absent, \<^verbatim>\<open>null\<close> or empty is the empty list, and
  \<^verbatim>\<open>choices\<close> absent is the empty list.
\<close>

record usage =
  prompt_tokens :: "int option"
  completion_tokens :: "int option"
  total_tokens :: "int option"

record response_message =
  msg_content :: "string option"
  tool_calls :: "tool_call list"

record choice =
  message :: response_message
  finish_reason :: "string option"

record response =
  choices :: "choice list"
  usage :: "usage option"

text \<open>
  How one \<^verbatim>\<open>fetch\<close> ends: the \<^verbatim>\<open>catch\<close> of lines 1675-1678 receives an error with
  a message (network failure, timeout, a status outside 2xx, a body that is not JSON), or
  the body is read.
\<close>

datatype fetch_outcome = FetchFail string | FetchData response

text \<open>What \<^verbatim>\<open>chat\<close> returns when it does not return \<^verbatim>\<open>null\<close>.\<close>

record chat_result =
  r_content :: string
  r_promptTokens :: int
  r_completionTokens :: int
  r_totalTokens :: int

text \<open>\<^verbatim>\<open>x || 0\<close> for a number or an absent field.\<close>

definition or_zero :: "int option \<Rightarrow> int" where
  "or_zero x = (case x of None \<Rightarrow> 0 | Some n \<Rightarrow> n)"

text \<open>\<^verbatim>\<open>data.usage?.f || 0\<close>.\<close>

definition usage_field :: "(usage \<Rightarrow> int option) \<Rightarrow> usage option \<Rightarrow> int" where
  "usage_field f u = (case u of None \<Rightarrow> 0 | Some v \<Rightarrow> or_zero (f v))"

text \<open>\<^verbatim>\<open>message.content || null\<close> and \<^verbatim>\<open>message.content || ""\<close>.\<close>

definition or_null :: "string option \<Rightarrow> string option" where
  "or_null x = (case x of None \<Rightarrow> None | Some s \<Rightarrow> if s = [] then None else Some s)"

definition or_empty :: "string option \<Rightarrow> string" where
  "or_empty x = (case x of None \<Rightarrow> [] | Some s \<Rightarrow> s)"

text \<open>Lines 1705-1712: the arguments of a call, with \<^verbatim>\<open>{}\<close> when parsing throws.\<close>

definition parse_arguments :: "host \<Rightarrow> raw_arguments \<Rightarrow> parsed" where
  "parse_arguments h a =
     (case a of
        ArgText s \<Rightarrow> (case json_parse h s of Some v \<Rightarrow> v | None \<Rightarrow> Object [])
      | ArgValue v \<Rightarrow> v)"

text \<open>
  The \<^verbatim>\<open>for\<close> loop of lines 1704-1722 over the tool calls, with \<^verbatim>\<open>apiMessages\<close>
  passed along. A tool that throws ends \<^verbatim>\<open>chat\<close> with that exception.
\<close>

fun run_tools ::
  "host \<Rightarrow> tool_call list \<Rightarrow> api_message list \<Rightarrow> world \<Rightarrow> api_message list outcome \<times> world" where
  "run_tools h [] apiMessages w = (Returned apiMessages, w)"
| "run_tools h (tc # tcs) apiMessages w =
     (case dispatchTool h (function_name tc) (parse_arguments h (function_arguments tc)) w of
        (Returned result, w1) \<Rightarrow>
          run_tools h tcs (apiMessages @ [ToolMessage (tool_output result) (call_id tc)]) w1
      | (Threw e, w1) \<Rightarrow> (Threw e, w1)
      | (Stalled, w1) \<Rightarrow> (Stalled, w1))"

text \<open>Lines 1691-1694: the text that comes with tool calls is printed when it is not empty.\<close>

definition print_alongside :: "string option \<Rightarrow> world \<Rightarrow> world" where
  "print_alongside c w =
     (case or_null c of
        None \<Rightarrow> w
      | Some text \<Rightarrow>
          (let cleaned = clean_content text in
           if cleaned \<noteq> [] then console_log (newline # ''Chalk: '' @ cleaned) w else w))"

definition stop_reason :: "string option \<Rightarrow> bool" where
  "stop_reason r \<longleftrightarrow> r = Some ''stop'' \<or> r = Some ''end_turn''"

text \<open>
  The \<^verbatim>\<open>while (!done)\<close> loop. The first argument lists how the requests of this
  turn end, in order; each iteration sends \<^verbatim>\<open>apiMessages\<close> and takes the next entry.
  When the list is used up the loop is waiting for the model: \<open>Stalled\<close>. The result
  \<open>Returned None\<close> is \<^verbatim>\<open>return null\<close>.
\<close>

fun chat_loop ::
  "host \<Rightarrow> fetch_outcome list \<Rightarrow> api_message list \<Rightarrow> world \<Rightarrow> chat_result option outcome \<times> world" where
  "chat_loop h [] apiMessages w = (Stalled, w)"
| "chat_loop h (FetchFail err_message # rest) apiMessages w =
     (Returned None,
      console_log (newline # ''  [error] '' @ err_message)
        (w\<lparr>requests := requests w @ [apiMessages]\<rparr>))"
| "chat_loop h (FetchData data # rest) apiMessages w =
     (let w0 = w\<lparr>requests := requests w @ [apiMessages]\<rparr> in
      case choices data of
        [] \<Rightarrow> (Returned None, console_log (newline # ''  [error] No response from model.'') w0)
      | choice # others \<Rightarrow>
          if tool_calls (message choice) \<noteq> [] then
            (case run_tools h (tool_calls (message choice))
                    (apiMessages @
                       [AssistantCalls (or_null (msg_content (message choice)))
                          (tool_calls (message choice))])
                    (print_alongside (msg_content (message choice)) w0) of
               (Returned apiMessages', w1) \<Rightarrow>
                 if stop_reason (finish_reason choice) then (Returned None, w1)
                 else chat_loop h rest apiMessages' w1
             | (Threw e, w1) \<Rightarrow> (Threw e, w1)
             | (Stalled, w1) \<Rightarrow> (Stalled, w1))
          else
            (let cleaned = clean_content (or_empty (msg_content (message choice)))
             in (Returned (Some \<lparr>r_content = cleaned,
                     r_promptTokens = usage_field prompt_tokens (usage data),
                     r_completionTokens = usage_field completion_tokens (usage data),
                     r_totalTokens = usage_field total_tokens (usage data)\<rparr>),
                 if cleaned \<noteq> [] then console_log (newline # ''Chalk: '' @ cleaned) w0 else w0)))"

text \<open>\<^verbatim>\<open>chat(config, systemPrompt, messages)\<close>: lines 1639-1642, then the loop.\<close>

definition chat ::
  "host \<Rightarrow> string \<Rightarrow> message list \<Rightarrow> fetch_outcome list \<Rightarrow> world \<Rightarrow> chat_result option outcome \<times> world" where
  "chat h systemPrompt msgs script w =
     chat_loop h script (Plain System systemPrompt # map (\<lambda>m. Plain (role m) (content m)) msgs) w"

text \<open>
  One message typed at the prompt, \<^verbatim>\<open>repl\<close> lines 1967-1983: the user message is
  pushed, \<^verbatim>\<open>chat\<close> runs, and a result that is not \<^verbatim>\<open>null\<close> is recorded. An
  exception of \<^verbatim>\<open>chat\<close> leaves \<^verbatim>\<open>repl\<close>.
\<close>

definition repl_turn ::
  "host \<Rightarrow> string \<Rightarrow> string \<Rightarrow> fetch_outcome list \<Rightarrow> session \<Rightarrow> world \<Rightarrow> session outcome \<times> world" where
  "repl_turn h systemPrompt userText script ctx w =
     (let ctx1 = ctx\<lparr>messages := messages ctx @ [\<lparr>role = User, content = userText\<rparr>]\<rparr> in
      case chat h systemPrompt (messages ctx1) script w of
        (Returned None, w1) \<Rightarrow> (Returned ctx1, w1)
      | (Returned (Some result), w1) \<Rightarrow>
          (let ctx2 = (if r_content result \<noteq> []
                       then ctx1\<lparr>messages := messages ctx1 @
                                   [\<lparr>role = Assistant, content = r_content result\<rparr>]\<rparr>
                       else ctx1)
           in (Returned (ctx2\<lparr>promptTokens := promptTokens ctx2 + r_promptTokens result,
                               completionTokens := completionTokens ctx2 + r_completionTokens result,
                               totalTokens := totalTokens ctx2 + r_totalTokens result\<rparr>), w1))
      | (Threw e, w1) \<Rightarrow> (Threw e, w1)
      | (Stalled, w1) \<Rightarrow> (Stalled, w1))"

section \<open>Raw-mode input (index.js lines 1179-1393, 1464-1477 and 1812-1884)\<close>

text \<open>
  \<^verbatim>\<open>process.stdin\<close> as the interactive primitives use it: whether it is a terminal and
  whether it is in raw mode. A \<^verbatim>\<open>data\<close> event carries a buffer of bytes. What the
  primitives draw on the screen does not touch the input stream and is left out.
\<close>

record stdin =
  isTTY :: bool
  isRaw :: bool

datatype 'a resolution = Pending | Resolved 'a

type_synonym chunk = "nat list"

definition setRawMode :: "bool \<Rightarrow> stdin \<Rightarrow> stdin" where
  "setRawMode mode s = s\<lparr>isRaw := mode\<rparr>"

text \<open>\<^verbatim>\<open>data[0]\<close> and \<^verbatim>\<open>data[2]\<close>; reading past the end gives \<^verbatim>\<open>undefined\<close>.\<close>

definition byte_at :: "chunk \<Rightarrow> nat \<Rightarrow> nat option" where
  "byte_at data i = (if i < length data then Some (data ! i) else None)"

definition escape_or_interrupt :: "chunk \<Rightarrow> bool" where
  "escape_or_interrupt data \<longleftrightarrow>
     (byte_at data 0 = Some 27 \<and> length data = 1) \<or> byte_at data 0 = Some 3"

definition arrow_sequence :: "chunk \<Rightarrow> bool" where
  "arrow_sequence data \<longleftrightarrow> byte_at data 0 = Some 27 \<and> length data \<ge> 3"

definition printable :: "chunk \<Rightarrow> bool" where
  "printable data \<longleftrightarrow> (case byte_at data 0 of None \<Rightarrow> False | Some c \<Rightarrow> 32 \<le> c \<and> c < 127)"

definition backspace :: "chunk \<Rightarrow> bool" where
  "backspace data \<longleftrightarrow> byte_at data 0 = Some 127 \<or> byte_at data 0 = Some 8"

text \<open>
  \<^verbatim>\<open>data.toString()\<close> decodes the bytes of the buffer as UTF-8. The decoder belongs to
  the runtime; the primitives that use it take it as their first argument \<open>toString\<close>.
\<close>

text \<open>
  The arrow keys of the palette and of the list selector: \<^verbatim>\<open>Math.max(0, selected - 1)\<close>
  on Up, then \<^verbatim>\<open>Math.min(n - 1, selected + 1)\<close> on Down.
\<close>

definition move_selection :: "chunk \<Rightarrow> nat \<Rightarrow> int \<Rightarrow> int" where
  "move_selection data n selected =
     (let up = (if byte_at data 2 = Some 65 then max 0 (selected - 1) else selected)
      in if byte_at data 2 = Some 66 then min (int n - 1) (up + 1) else up)"

text \<open>
  The terminal part of the \<^verbatim>\<open>cleanup\<close> of the palette and of the boxed dialogs:
  \<^verbatim>\<open>if (process.stdin.isTTY) process.stdin.setRawMode(wasRaw ?? false)\<close>.
\<close>

definition cleanup :: "bool \<Rightarrow> stdin \<Rightarrow> stdin" where
  "cleanup wasRaw s = (if isTTY s then setRawMode wasRaw s else s)"

text \<open>\<^verbatim>\<open>updateFilter\<close> of the palette (lines 1221-1227).\<close>

definition updateFilter :: "string \<Rightarrow> (string \<times> string) list" where
  "updateFilter filter_text =
     (let term = js_toLowerCase filter_text in
      filter (\<lambda>c. sublist term (drop 1 (fst c)) \<or> sublist term (js_toLowerCase (snd c)))
        SLASH_COMMANDS)"

text \<open>\<^verbatim>\<open>onKey\<close> of \<^verbatim>\<open>showSlashMenu\<close>, run over the key events that arrive.\<close>

fun menu_keys ::
  "(chunk \<Rightarrow> string) \<Rightarrow> bool \<Rightarrow> string \<Rightarrow> int \<Rightarrow> (string \<times> string) list \<Rightarrow> chunk list \<Rightarrow>
     stdin \<Rightarrow> string option resolution \<times> stdin" where
  "menu_keys toString wasRaw filter_text selected filtered [] s = (Pending, s)"
| "menu_keys toString wasRaw filter_text selected filtered (data # later) s =
     (if escape_or_interrupt data then (Resolved None, cleanup wasRaw s)
      else if byte_at data 0 = Some 13 then
        (Resolved (if 0 \<le> selected \<and> nat selected < length filtered
                   then Some (fst (filtered ! nat selected)) else None),
         cleanup wasRaw s)
      else if backspace data then
        (if filter_text \<noteq> [] then
           menu_keys toString wasRaw (butlast filter_text) 0 (updateFilter (butlast filter_text)) later s
         else (Resolved None, cleanup wasRaw s))
      else if arrow_sequence data then
        menu_keys toString wasRaw filter_text (move_selection data (length filtered) selected) filtered later s
      else if printable data then
        menu_keys toString wasRaw (filter_text @ toString data) 0
          (updateFilter (filter_text @ toString data)) later s
      else menu_keys toString wasRaw filter_text selected filtered later s)"

definition showSlashMenu ::
  "(chunk \<Rightarrow> string) \<Rightarrow> chunk list \<Rightarrow> stdin \<Rightarrow> string option resolution \<times> stdin" where
  "showSlashMenu toString keys s =
     (if \<not> isTTY s then (Resolved None, s)
      else menu_keys toString (isRaw s) [] 0 SLASH_COMMANDS keys (setRawMode True s))"

text \<open>\<^verbatim>\<open>boxSelect\<close>: the result is the selected index, or -1 on Escape.\<close>

fun select_keys :: "bool \<Rightarrow> nat \<Rightarrow> int \<Rightarrow> chunk list \<Rightarrow> stdin \<Rightarrow> int resolution \<times> stdin" where
  "select_keys wasRaw n selected [] s = (Pending, s)"
| "select_keys wasRaw n selected (data # later) s =
     (if escape_or_interrupt data then (Resolved (- 1), cleanup wasRaw s)
      else if byte_at data 0 = Some 13 then (Resolved selected, cleanup wasRaw s)
      else if arrow_sequence data then
        select_keys wasRaw n (move_selection data n selected) later s
      else select_keys wasRaw n selected later s)"

definition boxSelect :: "string list \<Rightarrow> chunk list \<Rightarrow> stdin \<Rightarrow> int resolution \<times> stdin" where
  "boxSelect items keys s =
     (if \<not> isTTY s then (Resolved 0, s)
      else select_keys (isRaw s) (length items) 0 keys (setRawMode True s))"

text \<open>\<^verbatim>\<open>boxTextInput\<close>: the result is the text, or \<^verbatim>\<open>null\<close> on Escape.\<close>

fun text_keys ::
  "(chunk \<Rightarrow> string) \<Rightarrow> bool \<Rightarrow> string \<Rightarrow> chunk list \<Rightarrow> stdin \<Rightarrow>
     string option resolution \<times> stdin" where
  "text_keys toString wasRaw buf [] s = (Pending, s)"
| "text_keys toString wasRaw buf (data # later) s =
     (if escape_or_interrupt data then (Resolved None, cleanup wasRaw s)
      else if byte_at data 0 = Some 13 then (Resolved (Some buf), cleanup wasRaw s)
      else if backspace data then
        text_keys toString wasRaw (if buf \<noteq> [] then butlast buf else buf) later s
      else if printable data then text_keys toString wasRaw (buf @ toString data) later s
      else text_keys toString wasRaw buf later s)"

definition boxTextInput ::
  "(chunk \<Rightarrow> string) \<Rightarrow> chunk list \<Rightarrow> stdin \<Rightarrow> string option resolution \<times> stdin" where
  "boxTextInput toString keys s =
     (if \<not> isTTY s then (Resolved None, s)
      else text_keys toString (isRaw s) [] keys (setRawMode True s))"

text \<open>The wait for Enter or Escape in \<^verbatim>\<open>showAgentsDialog\<close> (lines 1464-1477).\<close>

definition agents_wait :: "chunk list \<Rightarrow> stdin \<Rightarrow> string resolution \<times> stdin" where
  "agents_wait keys s =
     (if \<not> isTTY s then (Resolved ''esc'', s)
      else case keys of
        [] \<Rightarrow> (Pending, setRawMode True s)
      | data # later \<Rightarrow>
          (Resolved (if byte_at data 0 = Some 13 then ''enter'' else ''esc''),
           cleanup (isRaw s) (setRawMode True s)))"

text \<open>
  \<^verbatim>\<open>rawInput\<close>. Its \<^verbatim>\<open>cleanup\<close> (lines 1829-1832) does not keep the earlier mode:
  \<^verbatim>\<open>if (process.stdin.isTTY) process.stdin.setRawMode(false)\<close>. The result is
  \<^verbatim>\<open>{ text, isSlash }\<close>, or \<^verbatim>\<open>null\<close> at the end of the input.
\<close>

definition cleanup_rawInput :: "stdin \<Rightarrow> stdin" where
  "cleanup_rawInput s = (if isTTY s then setRawMode False s else s)"

fun raw_keys ::
  "(chunk \<Rightarrow> string) \<Rightarrow> string \<Rightarrow> chunk list \<Rightarrow> stdin \<Rightarrow>
     (string \<times> bool) option resolution \<times> stdin" where
  "raw_keys toString buf [] s = (Pending, s)"
| "raw_keys toString buf (data # later) s =
     (if byte_at data 0 = Some 4 then (Resolved None, cleanup_rawInput s)
      else if byte_at data 0 = Some 3 then (Resolved (Some ([], False)), cleanup_rawInput s)
      else if byte_at data 0 = Some 13 then
        (Resolved (Some (js_trim buf, False)), cleanup_rawInput s)
      else if backspace data then
        raw_keys toString (if buf \<noteq> [] then butlast buf else buf) later s
      else if byte_at data 0 = Some 27 then raw_keys toString buf later s
      else if byte_at data 0 = Some 9 then raw_keys toString buf later s
      else if printable data then
        (if buf @ toString data = ''/'' then (Resolved (Some (''/'', True)), cleanup_rawInput s)
         else raw_keys toString (buf @ toString data) later s)
      else raw_keys toString buf later s)"

text \<open>
  Without a terminal \<^verbatim>\<open>rawInput\<close> listens on a readline interface (lines 1818-1824);
  \<open>piped\<close> is the line that arrives, or \<open>None\<close> when the stream is closed. The handler
  of \<^verbatim>\<open>line\<close> calls \<^verbatim>\<open>rl.close()\<close> first, which runs the handler of \<^verbatim>\<open>close\<close> and
  resolves the promise with \<^verbatim>\<open>null\<close>; the \<^verbatim>\<open>resolve\<close> with the text that follows
  comes too late. So the result is \<^verbatim>\<open>null\<close> either way.
\<close>

definition rawInput ::
  "(chunk \<Rightarrow> string) \<Rightarrow> string option \<Rightarrow> chunk list \<Rightarrow> stdin \<Rightarrow>
     (string \<times> bool) option resolution \<times> stdin" where
  "rawInput toString piped keys s =
     (if \<not> isTTY s then
        (case piped of
           Some line \<Rightarrow> (Resolved None, s)
         | None \<Rightarrow> (Resolved None, s))
      else raw_keys toString [] keys (setRawMode True s))"

section \<open>The terminal over a run of the REPL (index.js lines 1431-1549 and 1934-1984)\<close>

text \<open>
  The interactive primitives by name, and one completed use of the terminal by a
  primitive: the input stream as the primitive found it and as it left it.
\<close>

datatype primitive = LineInput | Palette | KeyWait | ListSelect | TextInput

datatype acquisition = Acquisition primitive stdin stdin

fun mode_before :: "acquisition \<Rightarrow> stdin" where
  "mode_before (Acquisition p s s') = s"

fun mode_after :: "acquisition \<Rightarrow> stdin" where
  "mode_after (Acquisition p s s') = s'"

text \<open>
  What arrives during one pass of the REPL loop, listener by listener: the key events at
  the prompt (or the piped line), at the palette, and at the five steps of the agents
  dialog. A listener that is never attached in the pass does not read its events.
\<close>

record arrivals =
  piped :: "string option"
  at_prompt :: "chunk list"
  at_palette :: "chunk list"
  at_key_wait :: "chunk list"
  at_location :: "chunk list"
  at_method :: "chunk list"
  at_description :: "chunk list"
  at_name :: "chunk list"

text \<open>\<^verbatim>\<open>x === null || !x.trim()\<close> (lines 1512 and 1524).\<close>

definition blank :: "string option \<Rightarrow> bool" where
  "blank x = (case x of None \<Rightarrow> True | Some t \<Rightarrow> js_trim t = [])"

text \<open>
  \<^verbatim>\<open>showAgentsDialog\<close>, as far as it uses the terminal, from its last step to its first.
  Each part gives the completed uses of the terminal, whether the dialog returned (it
  does not when a listener waits for a key that never comes), and the input stream at
  that point. Step 4 (lines 1519-1527) asks for the name.
\<close>

definition agents_name ::
  "(chunk \<Rightarrow> string) \<Rightarrow> arrivals \<Rightarrow> stdin \<Rightarrow> acquisition list \<times> bool \<times> stdin" where
  "agents_name toString a s =
     (case boxTextInput toString (at_name a) s of
        (Pending, s1) \<Rightarrow> ([], False, s1)
      | (Resolved agentName, s1) \<Rightarrow> ([Acquisition TextInput s s1], True, s1))"

text \<open>Step 3 (lines 1507-1515) asks for the description.\<close>

definition agents_description ::
  "(chunk \<Rightarrow> string) \<Rightarrow> arrivals \<Rightarrow> stdin \<Rightarrow> acquisition list \<times> bool \<times> stdin" where
  "agents_description toString a s =
     (case boxTextInput toString (at_description a) s of
        (Pending, s1) \<Rightarrow> ([], False, s1)
      | (Resolved description, s1) \<Rightarrow>
          if blank description then ([Acquisition TextInput s s1], True, s1)
          else (case agents_name toString a s1 of
                  (uses, returned, s2) \<Rightarrow> (Acquisition TextInput s s1 # uses, returned, s2)))"

text \<open>Step 2 (lines 1497-1503) selects the creation method.\<close>

definition agents_method ::
  "(chunk \<Rightarrow> string) \<Rightarrow> arrivals \<Rightarrow> stdin \<Rightarrow> acquisition list \<times> bool \<times> stdin" where
  "agents_method toString a s =
     (case boxSelect [''Generate with Chalk (recommended)'', ''Manual configuration'']
             (at_method a) s of
        (Pending, s1) \<Rightarrow> ([], False, s1)
      | (Resolved methodIdx, s1) \<Rightarrow>
          if methodIdx = - 1 then ([Acquisition ListSelect s s1], True, s1)
          else (case agents_description toString a s1 of
                  (uses, returned, s2) \<Rightarrow> (Acquisition ListSelect s s1 # uses, returned, s2)))"

text \<open>Step 1 (lines 1486-1493) selects the location.\<close>

definition agents_location ::
  "(chunk \<Rightarrow> string) \<Rightarrow> arrivals \<Rightarrow> stdin \<Rightarrow> acquisition list \<times> bool \<times> stdin" where
  "agents_location toString a s =
     (case boxSelect [''Project (.chalk/agents/)'', ''Personal (~/.chalk/agents/)'']
             (at_location a) s of
        (Pending, s1) \<Rightarrow> ([], False, s1)
      | (Resolved locIdx, s1) \<Rightarrow>
          if locIdx = - 1 then ([Acquisition ListSelect s s1], True, s1)
          else (case agents_method toString a s1 of
                  (uses, returned, s2) \<Rightarrow> (Acquisition ListSelect s s1 # uses, returned, s2)))"

text \<open>The wait for Enter or Escape (lines 1464-1482), then the steps.\<close>

definition showAgentsDialog ::
  "(chunk \<Rightarrow> string) \<Rightarrow> arrivals \<Rightarrow> stdin \<Rightarrow> acquisition list \<times> bool \<times> stdin" where
  "showAgentsDialog toString a s =
     (case agents_wait (at_key_wait a) s of
        (Pending, s1) \<Rightarrow> ([], False, s1)
      | (Resolved action, s1) \<Rightarrow>
          if action \<noteq> ''enter'' then ([Acquisition KeyWait s s1], True, s1)
          else (case agents_location toString a s1 of
                  (uses, returned, s2) \<Rightarrow> (Acquisition KeyWait s s1 # uses, returned, s2)))"

text \<open>
  \<^verbatim>\<open>handleSlashCommand\<close>, as far as it uses the terminal: \<^verbatim>\<open>/agents\<close> opens the dialog,
  \<^verbatim>\<open>/exit\<close> ends the process, and no other branch touches the input stream. The flag
  says whether the REPL loop goes on.
\<close>

definition command_terminal ::
  "(chunk \<Rightarrow> string) \<Rightarrow> string \<Rightarrow> arrivals \<Rightarrow> stdin \<Rightarrow> acquisition list \<times> bool \<times> stdin" where
  "command_terminal toString command a s =
     (if command = ''/agents'' then showAgentsDialog toString a s
      else if command = ''/exit'' then ([], False, s)
      else ([], True, s))"

text \<open>
  One pass of the \<^verbatim>\<open>while (true)\<close> loop of \<^verbatim>\<open>repl\<close> (lines 1934-1984). A line that is
  no slash command goes to the multi-line input and to \<^verbatim>\<open>chat\<close>, which reach the
  terminal only through the readline interfaces of \<^verbatim>\<open>readLine\<close> and \<^verbatim>\<open>ask\<close> and
  through the spinner; \<open>library\<close> is what these do to the input stream.
\<close>

definition repl_pass ::
  "(chunk \<Rightarrow> string) \<Rightarrow> (stdin \<Rightarrow> stdin) \<Rightarrow> arrivals \<Rightarrow> stdin \<Rightarrow>
     acquisition list \<times> bool \<times> stdin" where
  "repl_pass toString library a s =
     (case rawInput toString (piped a) (at_prompt a) s of
        (Pending, s1) \<Rightarrow> ([], False, s1)
      | (Resolved None, s1) \<Rightarrow> ([Acquisition LineInput s s1], False, s1)
      | (Resolved (Some (text, isSlash)), s1) \<Rightarrow>
          if text = [] then ([Acquisition LineInput s s1], True, s1)
          else if isSlash then
            (case showSlashMenu toString (at_palette a) s1 of
               (Pending, s2) \<Rightarrow> ([Acquisition LineInput s s1], False, s2)
             | (Resolved None, s2) \<Rightarrow>
                 ([Acquisition LineInput s s1, Acquisition Palette s1 s2], True, s2)
             | (Resolved (Some cmd), s2) \<Rightarrow>
                 (case command_terminal toString cmd a s2 of
                    (uses, goes_on, s3) \<Rightarrow>
                      (Acquisition LineInput s s1 # Acquisition Palette s1 s2 # uses, goes_on, s3)))
          else if prefix ''/'' text then
            (case repl_slash text of
               Dispatch name \<Rightarrow>
                 (case command_terminal toString name a s1 of
                    (uses, goes_on, s3) \<Rightarrow> (Acquisition LineInput s s1 # uses, goes_on, s3))
             | Report line \<Rightarrow> ([Acquisition LineInput s s1], True, s1)
             | OpenMenu \<Rightarrow> ([Acquisition LineInput s s1], True, s1))
          else ([Acquisition LineInput s s1], True, library s1))"

text \<open>The loop: the completed uses of the terminal over the passes, in order.\<close>

fun repl_terminal ::
  "(chunk \<Rightarrow> string) \<Rightarrow> (stdin \<Rightarrow> stdin) \<Rightarrow> arrivals list \<Rightarrow> stdin \<Rightarrow> acquisition list" where
  "repl_terminal toString library [] s = []"
| "repl_terminal toString library (a # later) s =
     (case repl_pass toString library a s of
        (uses, goes_on, s1) \<Rightarrow>
          uses @ (if goes_on then repl_terminal toString library later s1 else []))"

text \<open>Every use of the terminal in a list left the input stream as it found it.\<close>

definition restored :: "acquisition list \<Rightarrow> bool" where
  "restored uses \<longleftrightarrow> (\<forall>u \<in> set uses. mode_after u = mode_before u)"

text \<open>
  The tool-role entries for a list of calls and their results, in the order of the calls:
  \<^verbatim>\<open>{ role: "tool", content: result.output, tool_call_id: tc.id }\<close>.
\<close>

definition tool_messages :: "tool_call list \<Rightarrow> tool_result list \<Rightarrow> api_message list" where
  "tool_messages tcs results =
     map (\<lambda>(tc, r). ToolMessage (tool_output r) (call_id tc)) (zip tcs results)"

section \<open>Sample inputs\<close>

text \<open>The key events Enter, Down (\<^verbatim>\<open>ESC [ B\<close>) and the letter a.\<close>

definition key_enter :: chunk where
  "key_enter = [13]"

definition key_down :: chunk where
  "key_down = [27, 91, 66]"

definition key_a :: chunk where
  "key_a = [97]"

text \<open>
  The key events slash, Escape and Ctrl+D; a terminal with raw mode off and one with raw
  mode on; and a run of three passes of the REPL loop: a slash that opens the palette,
  where \<^verbatim>\<open>/agents\<close> is chosen and the dialog is left with Escape at its second list;
  a message; and the end of the input.
\<close>

definition key_slash :: chunk where
  "key_slash = [47]"

definition key_escape :: chunk where
  "key_escape = [27]"

definition key_eof :: chunk where
  "key_eof = [4]"

definition cooked_terminal :: stdin where
  "cooked_terminal = \<lparr>isTTY = True, isRaw = False\<rparr>"

definition raw_terminal :: stdin where
  "raw_terminal = \<lparr>isTTY = True, isRaw = True\<rparr>"

definition no_keys :: arrivals where
  "no_keys = \<lparr>piped = None, at_prompt = [], at_palette = [], at_key_wait = [], at_location = [],
               at_method = [], at_description = [], at_name = []\<rparr>"

definition sample_passes :: "arrivals list" where
  "sample_passes =
     [no_keys\<lparr>at_prompt := [key_slash], at_palette := [key_down, key_down, key_enter],
              at_key_wait := [key_enter], at_location := [key_enter],
              at_method := [key_escape]\<rparr>,
      no_keys\<lparr>at_prompt := [key_a, key_enter]\<rparr>,
      no_keys\<lparr>at_prompt := [key_eof]\<rparr>]"

text \<open>The decoder on buffers of ASCII bytes, where UTF-8 is one byte per character.\<close>

definition ascii :: "chunk \<Rightarrow> string" where
  "ascii data = map char_of data"

text \<open>A host and a starting world for evaluating the definitions on concrete runs.\<close>

definition sample_host :: host where
  "sample_host =
     \<lparr>json_parse = (\<lambda>s. if s = ''{}'' then Some (Object [])
                          else if s = ''null'' then Some Nullish else None),
      path_resolve = (\<lambda>p. ''/work/'' @ p),
      execSync = (\<lambda>n c. case c of
                   None \<Rightarrow> ExecErr None None ''The command argument must be of type string''
                 | Some command \<Rightarrow> ExecOk ''ok''),
      writeFile = (\<lambda>n p c. None)\<rparr>"

definition start :: "string list \<Rightarrow> world" where
  "start typed = \<lparr>out = [], answers = typed, ran = [], written = [], requests = []\<rparr>"

text \<open>
  A turn on the question \<^verbatim>\<open>list files\<close>: a response with two tool calls, a final
  answer, a response that carries a tool call together with the finish reason
  \<^verbatim>\<open>stop\<close>, a final answer that is nothing but a thinking span, and two responses
  with one call each, of \<^verbatim>\<open>tool_edit\<close> and of \<^verbatim>\<open>tool_run\<close>, whose arguments are the
  empty object.
\<close>

definition sample_calls :: "tool_call list" where
  "sample_calls =
     [ToolCall ''call_1'' ''tool_run'' (ArgValue (Object [(''command'', ''ls'')])),
      ToolCall ''call_2'' ''lookup'' (ArgText ''{}'')]"

definition tool_round :: response where
  "tool_round =
     \<lparr>choices = [\<lparr>message = \<lparr>msg_content = None, tool_calls = sample_calls\<rparr>,
                  finish_reason = Some ''tool_calls''\<rparr>],
      usage = Some \<lparr>prompt_tokens = Some 100, completion_tokens = Some 20,
                    total_tokens = Some 120\<rparr>\<rparr>"

definition final_round :: response where
  "final_round =
     \<lparr>choices = [\<lparr>message = \<lparr>msg_content = Some ''<think>plan</think> Done'', tool_calls = []\<rparr>,
                  finish_reason = Some ''stop''\<rparr>],
      usage = Some \<lparr>prompt_tokens = Some 7, completion_tokens = None, total_tokens = Some 9\<rparr>\<rparr>"

definition stop_round :: response where
  "stop_round =
     \<lparr>choices = [\<lparr>message = \<lparr>msg_content = Some ''Done.'',
                             tool_calls = [ToolCall ''call_9'' ''lookup'' (ArgText ''{}'')]\<rparr>,
                  finish_reason = Some ''stop''\<rparr>],
      usage = Some \<lparr>prompt_tokens = Some 10, completion_tokens = Some 5, total_tokens = Some 15\<rparr>\<rparr>"

definition silent_round :: response where
  "silent_round =
     \<lparr>choices = [\<lparr>message = \<lparr>msg_content = Some ''<think>hidden</think>'', tool_calls = []\<rparr>,
                  finish_reason = Some ''stop''\<rparr>],
      usage = None\<rparr>"

definition edit_round :: response where
  "edit_round =
     \<lparr>choices = [\<lparr>message = \<lparr>msg_content = None,
                             tool_calls = [ToolCall ''call_1'' ''tool_edit'' (ArgText ''{}'')]\<rparr>,
                  finish_reason = Some ''tool_calls''\<rparr>],
      usage = None\<rparr>"

definition run_round :: response where
  "run_round =
     \<lparr>choices = [\<lparr>message = \<lparr>msg_content = None,
                             tool_calls = [ToolCall ''call_1'' ''tool_run'' (ArgText ''{}'')]\<rparr>,
                  finish_reason = Some ''tool_calls''\<rparr>],
      usage = None\<rparr>"

definition fresh :: session where
  "fresh = \<lparr>messages = [], totalTokens = 0, promptTokens = 0, completionTokens = 0\<rparr>"

definition asked :: "api_message list" where
  "asked = [Plain System ''sys'', Plain User ''list files'']"

section \<open>Facts about searching\<close>

lemma find_sub_None_iff: "find_sub p s = None \<longleftrightarrow> \<not> sublist p s"
  by (induction s) (auto simp: sublist_Cons_right)

lemma sublist_tl_mono: "\<not> sublist p (x # u) \<Longrightarrow> \<not> sublist p u"
  by (simp add: sublist_Cons_right)

text \<open>A tag whose first character does not occur again in it cannot overlap itself.\<close>

lemma no_early_prefix:
  assumes p: "p = c # q" and fresh: "c \<notin> set q"
    and nsub: "\<not> sublist p u" and ne: "u \<noteq> []"
  shows "\<not> prefix p (u @ p @ v)"
proof
  assume pre: "prefix p (u @ p @ v)"
  show False
  proof (cases "length p \<le> length u")
    case True
    have "prefix u (u @ p @ v)" by simp
    with pre True have "prefix p u"
      using prefix_length_prefix by blast
    then show False using nsub by auto
  next
    case False
    then have lt: "length u < length p" by simp
    from pre obtain zs where eq: "u @ p @ v = p @ zs"
      by (auto simp: prefix_def)
    have "(u @ p @ v) ! length u = c"
      using p by (simp add: nth_append)
    moreover have "(p @ zs) ! length u = p ! length u"
      using lt by (simp add: nth_append)
    ultimately have "p ! length u = c" using eq by simp
    moreover from ne lt p have "p ! length u \<in> set q"
      by (cases u) auto
    ultimately show False using fresh by simp
  qed
qed

lemma find_sub_first:
  assumes p: "p = c # q" and fresh: "c \<notin> set q" and nsub: "\<not> sublist p u"
  shows "find_sub p (u @ p @ v) = Some (length u)"
  using nsub
proof (induction u)
  case Nil
  then show ?case using p by simp
next
  case (Cons x u)
  have "\<not> prefix p ((x # u) @ p @ v)"
    by (rule no_early_prefix [OF p fresh Cons.prems]) simp
  moreover have "find_sub p (u @ p @ v) = Some (length u)"
    using Cons.IH Cons.prems by (simp add: sublist_Cons_right)
  ultimately show ?case by simp
qed

lemma open_tag_shape: "open_tag = CHR ''<'' # ''think>''" "CHR ''<'' \<notin> set ''think>''"
  by (simp_all add: open_tag_def)

lemma close_tag_shape: "close_tag = CHR ''<'' # ''/think>''" "CHR ''<'' \<notin> set ''/think>''"
  by (simp_all add: close_tag_def)

section \<open>The thinking spans are stripped\<close>

lemma strip_closed_no_open: "\<not> sublist open_tag s \<Longrightarrow> strip_closed s = s"
proof (induction s)
  case Nil
  then show ?case by (simp add: strip_closed.simps)
next
  case (Cons x s)
  from Cons.prems have np: "\<not> prefix open_tag (x # s)" by auto
  from Cons.prems have "\<not> sublist open_tag s" by (simp add: sublist_Cons_right)
  with Cons.IH have "strip_closed s = s" by simp
  with np show ?case by (subst strip_closed.simps) simp
qed

lemma strip_closed_no_close: "\<not> sublist close_tag s \<Longrightarrow> strip_closed s = s"
proof (induction s)
  case Nil
  then show ?case by (simp add: strip_closed.simps)
next
  case (Cons x s)
  have "sublist (drop (length open_tag) (x # s)) (x # s)" by (rule sublist_drop)
  with Cons.prems have "\<not> sublist close_tag (drop (length open_tag) (x # s))"
    using sublist_order.order_trans by blast
  then have fn: "find_sub close_tag (drop (length open_tag) (x # s)) = None"
    by (simp add: find_sub_None_iff)
  from Cons.prems have "\<not> sublist close_tag s" by (simp add: sublist_Cons_right)
  with Cons.IH have "strip_closed s = s" by simp
  with fn show ?case by (subst strip_closed.simps) simp
qed

lemma strip_closed_span:
  assumes "\<not> sublist open_tag a" and "\<not> sublist close_tag b"
  shows "strip_closed (a @ open_tag @ b @ close_tag @ c) = a @ strip_closed c"
  using assms(1)
proof (induction a)
  case Nil
  have "find_sub close_tag (b @ close_tag @ c) = Some (length b)"
    by (rule find_sub_first [OF close_tag_shape assms(2)])
  then show ?case
    by (subst strip_closed.simps) (simp add: open_tag_def)
next
  case (Cons x a)
  have np: "\<not> prefix open_tag ((x # a) @ open_tag @ b @ close_tag @ c)"
    by (rule no_early_prefix [OF open_tag_shape Cons.prems]) simp
  from Cons.prems have "\<not> sublist open_tag a" by (simp add: sublist_Cons_right)
  with Cons.IH have "strip_closed (a @ open_tag @ b @ close_tag @ c) = a @ strip_closed c"
    by simp
  with np show ?case by (subst strip_closed.simps) simp
qed

lemma strip_closed_render:
  assumes "\<forall>(a, b) \<in> set ps. \<not> sublist open_tag a \<and> \<not> sublist close_tag b"
  shows "strip_closed (render ps t) = concat (map fst ps) @ strip_closed t"
  using assms
proof (induction ps)
  case Nil
  then show ?case by simp
next
  case (Cons p ps)
  obtain a b where p: "p = (a, b)" by (cases p)
  with Cons.prems have "\<not> sublist open_tag a" "\<not> sublist close_tag b" by auto
  then have "strip_closed (a @ open_tag @ b @ close_tag @ render ps t) = a @ strip_closed (render ps t)"
    by (rule strip_closed_span)
  with Cons p show ?case by simp
qed


lemma strip_closed_unterminated:
  assumes "\<not> sublist open_tag t" and "\<not> sublist close_tag r"
  shows "strip_closed (t @ open_tag @ r) = t @ open_tag @ r"
  using assms(1)
proof (induction t)
  case Nil
  have fn: "find_sub close_tag (drop (length open_tag) (open_tag @ r)) = None"
    using assms(2) by (simp add: find_sub_None_iff)
  have "\<not> sublist close_tag (''think>'' @ r)"
    using assms(2) by (simp add: sublist_Cons_right close_tag_def)
  then have "strip_closed (''think>'' @ r) = ''think>'' @ r"
    by (rule strip_closed_no_close)
  moreover have "tl (open_tag @ r) = ''think>'' @ r" "hd (open_tag @ r) = CHR ''<''"
    by (simp_all add: open_tag_def)
  ultimately show ?case using fn
    by (subst strip_closed.simps) (simp add: open_tag_def)
next
  case (Cons x t)
  have np: "\<not> prefix open_tag ((x # t) @ open_tag @ r)"
    by (rule no_early_prefix [OF open_tag_shape Cons.prems]) simp
  from Cons.prems have "\<not> sublist open_tag t" by (simp add: sublist_Cons_right)
  with Cons.IH have "strip_closed (t @ open_tag @ r) = t @ open_tag @ r" by simp
  with np show ?case by (subst strip_closed.simps) simp
qed

lemma strip_open_first: "\<not> sublist open_tag u \<Longrightarrow> strip_open (u @ open_tag @ r) = u"
  using find_sub_first [OF open_tag_shape, of u r] by (simp add: strip_open_def)

lemma strip_open_none: "\<not> sublist open_tag u \<Longrightarrow> strip_open u = u"
  by (simp add: strip_open_def find_sub_None_iff [symmetric])

lemma sublist_concat_member: "a \<in> set xs \<Longrightarrow> sublist a (concat xs)"
proof -
  assume "a \<in> set xs"
  then obtain ys zs where "xs = ys @ a # zs" by (auto dest: split_list)
  then have "concat xs = concat ys @ a @ concat zs" by simp
  then show ?thesis by (metis sublist_appendI)
qed

lemma outside_parts:
  assumes "\<not> sublist open_tag (outside ps t)"
  shows "\<not> sublist open_tag t" and "\<forall>(a, b) \<in> set ps. \<not> sublist open_tag a"
proof -
  have "sublist t (outside ps t)" by (simp add: outside_def)
  with assms show "\<not> sublist open_tag t"
    using sublist_order.order_trans by blast
  show "\<forall>(a, b) \<in> set ps. \<not> sublist open_tag a"
  proof (clarify)
    fix a b assume ab: "(a, b) \<in> set ps" and sub: "sublist open_tag a"
    from ab have "a \<in> set (map fst ps)" by force
    then have "sublist a (concat (map fst ps))" by (rule sublist_concat_member)
    then have "sublist a (outside ps t)"
      unfolding outside_def by (metis sublist_order.order_trans sublist_append_rightI)
    with sub have "sublist open_tag (outside ps t)"
      using sublist_order.order_trans by blast
    with assms show False by simp
  qed
qed

text \<open>
  Claim C4, as the code has it. Take a text made of regular pieces and closed spans
  \<^verbatim>\<open><think>...</think>\<close> (no body contains the closer), followed by a regular tail
  \<open>t\<close>, where the regular text, pieces and tail joined, does not contain the opener.
  Then the result is the regular text with the white space at both ends trimmed; and
  the same holds when the tail is followed by an opener without a closer and any text
  \<open>r\<close> behind it, which is removed up to the end.
\<close>

theorem think_strip_amended:
  assumes bodies: "\<forall>(a, b) \<in> set ps. \<not> sublist close_tag b"
    and regular: "\<not> sublist open_tag (outside ps t)"
  shows "clean_content (render ps t) = js_trim (outside ps t) \<and>
         (\<not> sublist close_tag r \<longrightarrow>
            clean_content (render ps (t @ open_tag @ r)) = js_trim (outside ps t))"
proof -
  note parts = outside_parts [OF regular]
  from bodies parts(2)
  have spans: "\<forall>(a, b) \<in> set ps. \<not> sublist open_tag a \<and> \<not> sublist close_tag b"
    by auto
  have "strip_closed (render ps t) = outside ps t"
    using strip_closed_render [OF spans, of t] strip_closed_no_open [OF parts(1)]
    by (simp add: outside_def)
  then have first: "clean_content (render ps t) = js_trim (outside ps t)"
    using strip_open_none [OF regular] by (simp add: clean_content_def)
  have second: "clean_content (render ps (t @ open_tag @ r)) = js_trim (outside ps t)"
    if r: "\<not> sublist close_tag r"
  proof -
    have "strip_closed (render ps (t @ open_tag @ r)) = outside ps t @ open_tag @ r"
      using strip_closed_render [OF spans, of "t @ open_tag @ r"]
        strip_closed_unterminated [OF parts(1) r]
      by (simp add: outside_def)
    then show ?thesis
      using strip_open_first [OF regular, of r] by (simp add: clean_content_def)
  qed
  from first second show ?thesis by blast
qed

theorem think_strip_witness:
  "clean_content ''Hi <think>plan</think> there '' = ''Hi  there'' \<and>
   clean_content ''Hi <think>plan</think> there <think>more'' = ''Hi  there''"
  using think_strip_amended [of "[(''Hi '', ''plan'')]" "'' there ''" "''more''"]
  by (simp add: outside_def open_tag_def close_tag_def sublist_Cons_right
      js_trim_def js_whitespace_def)

text \<open>
  The claim as written fails: the regular text \<^verbatim>\<open>" Hello"\<close> around a span loses its
  leading space to \<^verbatim>\<open>trim()\<close>, and regular text that forms an opener once a span is
  removed is cut by the second replacement.
\<close>

theorem think_strip_counterexample:
  "clean_content ''<think>plan</think> Hello'' = ''Hello'' \<and>
   ''Hello'' \<noteq> '' Hello'' \<and>
   clean_content ''<thi<think>x</think>nk>Hello'' = []"
  by (simp add: clean_content_def strip_closed.simps strip_open_def
      open_tag_def close_tag_def js_trim_def js_whitespace_def)


section \<open>Slash commands\<close>

lemma slice_last4_length: "4 \<le> length xs \<Longrightarrow> length (slice_last4 xs) = 4"
  by (simp add: slice_last4_def)

lemma slice_last4_suffix: "take (length xs - 4) xs @ slice_last4 xs = xs"
  by (simp add: slice_last4_def)

lemma show_nat_4: "show_nat 4 = ''4''"
  by code_simp

text \<open>
  Claim C6. With more than 6 messages \<^verbatim>\<open>/compact\<close> keeps exactly the last 4, in their
  order, and drops the earlier ones; the counters are untouched. With 6 or fewer the
  session is unchanged and the notice that the conversation is already short is printed.
\<close>

theorem compact_keeps_last_four:
  "(length (messages ctx) > 6 \<longrightarrow>
      handleSlashCommand ''/compact'' ctx =
        (ctx\<lparr>messages := slice_last4 (messages ctx)\<rparr>,
         [Print ''  Compacted. Kept last 4 messages.'']) \<and>
      length (slice_last4 (messages ctx)) = 4 \<and>
      (\<exists>discarded. messages ctx = discarded @ slice_last4 (messages ctx))) \<and>
   (length (messages ctx) \<le> 6 \<longrightarrow>
      handleSlashCommand ''/compact'' ctx = (ctx, [Print ''  Conversation is already short.'']))"
proof (intro conjI impI)
  assume long: "6 < length (messages ctx)"
  then have four: "length (slice_last4 (messages ctx)) = 4"
    by (simp add: slice_last4_length)
  then show "length (slice_last4 (messages ctx)) = 4" .
  from long four show "handleSlashCommand ''/compact'' ctx =
      (ctx\<lparr>messages := slice_last4 (messages ctx)\<rparr>,
       [Print ''  Compacted. Kept last 4 messages.''])"
    by (simp add: handleSlashCommand_def Let_def show_nat_4)
  show "\<exists>discarded. messages ctx = discarded @ slice_last4 (messages ctx)"
    using slice_last4_suffix [of "messages ctx"] by metis
next
  assume "length (messages ctx) \<le> 6"
  then show "handleSlashCommand ''/compact'' ctx =
      (ctx, [Print ''  Conversation is already short.''])"
    by (simp add: handleSlashCommand_def)
qed

theorem compact_keeps_last_four_witness:
  "fst (handleSlashCommand ''/compact''
      \<lparr>messages = map (\<lambda>t. \<lparr>role = User, content = t\<rparr>) [''a'', ''b'', ''c'', ''d'', ''e'', ''f'', ''g''],
       totalTokens = 30, promptTokens = 10, completionTokens = 20\<rparr>) =
     \<lparr>messages = map (\<lambda>t. \<lparr>role = User, content = t\<rparr>) [''d'', ''e'', ''f'', ''g''],
       totalTokens = 30, promptTokens = 10, completionTokens = 20\<rparr> \<and>
   fst (handleSlashCommand ''/compact''
      \<lparr>messages = map (\<lambda>t. \<lparr>role = User, content = t\<rparr>) [''a'', ''b'', ''c'', ''d'', ''e'', ''f''],
       totalTokens = 30, promptTokens = 10, completionTokens = 20\<rparr>) =
     \<lparr>messages = map (\<lambda>t. \<lparr>role = User, content = t\<rparr>) [''a'', ''b'', ''c'', ''d'', ''e'', ''f''],
       totalTokens = 30, promptTokens = 10, completionTokens = 20\<rparr>"
  using compact_keeps_last_four
    [of "\<lparr>messages = map (\<lambda>t. \<lparr>role = User, content = t\<rparr>) [''a'', ''b'', ''c'', ''d'', ''e'', ''f'', ''g''],
       totalTokens = 30, promptTokens = 10, completionTokens = 20\<rparr>"]
    compact_keeps_last_four
    [of "\<lparr>messages = map (\<lambda>t. \<lparr>role = User, content = t\<rparr>) [''a'', ''b'', ''c'', ''d'', ''e'', ''f''],
       totalTokens = 30, promptTokens = 10, completionTokens = 20\<rparr>"]
  by (simp add: slice_last4_def)

lemma names_of_commands:
  "map fst SLASH_COMMANDS =
     [''/help'', ''/clear'', ''/agents'', ''/config'', ''/model'', ''/tree'', ''/cost'',
      ''/compact'', ''/new'', ''/exit'']"
  by (simp add: SLASH_COMMANDS_def)

lemma find_exact_None:
  "text \<notin> set (map fst SLASH_COMMANDS) \<Longrightarrow> find (\<lambda>c. fst c = text) SLASH_COMMANDS = None"
  by (force simp: find_None_iff)

lemma repl_slash_first_resolves:
  assumes "input \<noteq> ''/''" and "input \<notin> set (map fst SLASH_COMMANDS)"
  shows "repl_slash_first input =
     (let partial = filter (\<lambda>c. prefix input (fst c)) SLASH_COMMANDS in
      if length partial = 1 then Dispatch (fst (hd partial))
      else if length partial > 1 then
        Report (''  Ambiguous. Did you mean: '' @ js_join '', '' (map fst partial) @ ''?'')
      else Report (''  Unknown command: '' @ input @ ''. Type / to see all commands.''))"
  using assms by (simp add: repl_slash_first_def find_exact_None)

lemma repl_slash_resolves:
  assumes "text \<notin> set (map fst SLASH_COMMANDS)"
  shows "repl_slash text =
     (let partial = filter (\<lambda>c. prefix text (fst c)) SLASH_COMMANDS in
      if length partial = 1 then Dispatch (fst (hd partial))
      else Report (''  Unknown command: '' @ text @ ''. Type / to see all.''))"
  using assms by (simp add: repl_slash_def find_exact_None)

text \<open>
  Claim C5 at the input \<^verbatim>\<open>/c\<close>, which is no command name and is a prefix of four
  names. The second copy of \<^verbatim>\<open>repl\<close> reports an unknown command and lists nothing;
  the first copy reports the ambiguity with the four candidates.
\<close>

theorem partial_slash_ambiguity_lost:
  "map fst (filter (\<lambda>c. prefix ''/c'' (fst c)) SLASH_COMMANDS) =
     [''/clear'', ''/config'', ''/cost'', ''/compact''] \<and>
   repl_slash ''/c'' = Report ''  Unknown command: /c. Type / to see all.'' \<and>
   repl_slash_first ''/c'' =
     Report ''  Ambiguous. Did you mean: /clear, /config, /cost, /compact?''"
  by (simp add: repl_slash_def repl_slash_first_def SLASH_COMMANDS_def)

text \<open>A prefix of one name is dispatched, a prefix of none is reported as unknown.\<close>

lemma partial_slash_unique:
  "repl_slash ''/comp'' = Dispatch ''/compact'' \<and> repl_slash ''/x'' = Report ''  Unknown command: /x. Type / to see all.''"
  by (simp add: repl_slash_def repl_slash_first_def SLASH_COMMANDS_def)

section \<open>Confirmation of a command\<close>

lemma ask_answered:
  "answers w = a # rest \<Longrightarrow>
     ask q w = (Returned (js_toLowerCase (js_trim a)), (console_log q w)\<lparr>answers := rest\<rparr>)"
  by (simp add: ask_def)

lemma console_log_fields [simp]:
  "ran (console_log l w) = ran w" "written (console_log l w) = written w"
  "requests (console_log l w) = requests w" "answers (console_log l w) = answers w"
  "out (console_log l w) = out w @ [l]"
  by (simp_all add: console_log_def)

text \<open>
  Claim C7. When the confirmation of \<^verbatim>\<open>execToolRun\<close> is answered, and the answer
  trimmed and in lower case is \<^verbatim>\<open>n\<close> or \<^verbatim>\<open>no\<close>, nothing is handed to
  \<^verbatim>\<open>execSync\<close> and the result is unsuccessful with the fixed denial message; with any
  other answer, the empty one included, the command is handed to \<^verbatim>\<open>execSync\<close>.
\<close>

theorem run_confirmation:
  assumes typed: "answers w = a # rest"
  shows "(js_toLowerCase (js_trim a) \<in> {''n'', ''no''} \<longrightarrow>
            fst (execToolRun h command w) =
              Returned \<lparr>tool_output = ''User denied command execution.'', success = False\<rparr> \<and>
            ran (snd (execToolRun h command w)) = ran w) \<and>
         (js_toLowerCase (js_trim a) \<notin> {''n'', ''no''} \<longrightarrow>
            ran (snd (execToolRun h command w)) = ran w @ [command] \<and>
            (\<exists>r. fst (execToolRun h command w) = Returned r))"
proof -
  let ?w0 = "console_log (newline # ''  $ '' @ template command) w"
  have "answers ?w0 = a # rest" using typed by simp
  then have asked: "ask ''  Run this command? (Y/n) '' ?w0 =
      (Returned (js_toLowerCase (js_trim a)),
       (console_log ''  Run this command? (Y/n) '' ?w0)\<lparr>answers := rest\<rparr>)"
    by (rule ask_answered)
  show ?thesis
    unfolding execToolRun_def asked
    by (simp add: Let_def split: exec_outcome.split)
qed

lemma lowered_answers:
  "js_toLowerCase (js_trim '' No '') = ''no''" "js_toLowerCase (js_trim []) = []"
  "js_toLowerCase (js_trim ''N'') = ''n''"
  by code_simp+

theorem run_confirmation_witness:
  "fst (execToolRun sample_host (Some ''ls'') (start ['' No ''])) =
     Returned \<lparr>tool_output = ''User denied command execution.'', success = False\<rparr> \<and>
   ran (snd (execToolRun sample_host (Some ''ls'') (start ['' No '']))) = [] \<and>
   ran (snd (execToolRun sample_host (Some ''ls'') (start ['''']))) = [Some ''ls'']"
  using run_confirmation [of "start ['' No '']" "'' No ''" "[]" sample_host "Some ''ls''"]
    run_confirmation [of "start ['''']" "[]" "[]" sample_host "Some ''ls''"]
  by (simp add: start_def lowered_answers)

section \<open>Raw mode\<close>

lemma cleanup_after_raw: "isTTY s \<Longrightarrow> cleanup (isRaw s) (setRawMode True s) = s"
  by (simp add: cleanup_def setRawMode_def)

lemma menu_keys_resolved:
  "menu_keys toString wasRaw f sel fl keys s = (Resolved r, s') \<Longrightarrow> s' = cleanup wasRaw s"
  by (induction keys arbitrary: f sel fl) (auto split: if_splits)

lemma select_keys_resolved:
  "select_keys wasRaw n sel keys s = (Resolved r, s') \<Longrightarrow> s' = cleanup wasRaw s"
  by (induction keys arbitrary: sel) (auto split: if_splits)

lemma text_keys_resolved:
  "text_keys toString wasRaw buf keys s = (Resolved r, s') \<Longrightarrow> s' = cleanup wasRaw s"
  by (induction keys arbitrary: buf) (auto split: if_splits)

lemma raw_keys_resolved:
  "raw_keys toString buf keys s = (Resolved r, s') \<Longrightarrow> s' = cleanup_rawInput s"
  by (induction keys arbitrary: buf) (auto split: if_splits)

lemma showSlashMenu_restores:
  "showSlashMenu toString keys s = (Resolved r, s') \<Longrightarrow> s' = s"
  by (auto simp: showSlashMenu_def cleanup_after_raw split: if_splits dest!: menu_keys_resolved)

lemma boxSelect_restores: "boxSelect items keys s = (Resolved r, s') \<Longrightarrow> s' = s"
  by (auto simp: boxSelect_def cleanup_after_raw split: if_splits dest!: select_keys_resolved)

lemma boxTextInput_restores:
  "boxTextInput toString keys s = (Resolved r, s') \<Longrightarrow> s' = s"
  by (auto simp: boxTextInput_def cleanup_after_raw split: if_splits dest!: text_keys_resolved)

lemma agents_wait_restores: "agents_wait keys s = (Resolved r, s') \<Longrightarrow> s' = s"
  by (auto simp: agents_wait_def cleanup_after_raw split: if_splits list.splits)

text \<open>\<^verbatim>\<open>rawInput\<close> leaves raw mode off, which is how it finds it in the REPL.\<close>

lemma rawInput_resolved:
  "rawInput toString incoming keys s = (Resolved r, s') \<Longrightarrow>
     s' = (if isTTY s then s\<lparr>isRaw := False\<rparr> else s)"
  by (auto simp: rawInput_def cleanup_rawInput_def setRawMode_def
      split: if_splits option.splits dest!: raw_keys_resolved)

lemma rawInput_restores:
  "\<not> isRaw s \<Longrightarrow> rawInput toString incoming keys s = (Resolved r, s') \<Longrightarrow> s' = s"
  by (drule rawInput_resolved) simp

lemma restored_simps [simp]:
  "restored []" "restored (Acquisition p s s' # uses) \<longleftrightarrow> s' = s \<and> restored uses"
  "restored (xs @ ys) \<longleftrightarrow> restored xs \<and> restored ys"
  by (auto simp: restored_def)

lemma agents_name_restores:
  "agents_name toString a s = (uses, returned, s') \<Longrightarrow> restored uses \<and> (returned \<longrightarrow> s' = s)"
  by (auto simp: agents_name_def split: prod.splits resolution.splits
      dest: boxTextInput_restores)

lemma agents_description_restores:
  "agents_description toString a s = (uses, returned, s') \<Longrightarrow>
     restored uses \<and> (returned \<longrightarrow> s' = s)"
  by (auto simp: agents_description_def split: prod.splits resolution.splits if_splits
      dest!: boxTextInput_restores dest: agents_name_restores)

lemma agents_method_restores:
  "agents_method toString a s = (uses, returned, s') \<Longrightarrow>
     restored uses \<and> (returned \<longrightarrow> s' = s)"
  by (auto simp: agents_method_def split: prod.splits resolution.splits if_splits
      dest!: boxSelect_restores dest: agents_description_restores)

lemma agents_location_restores:
  "agents_location toString a s = (uses, returned, s') \<Longrightarrow>
     restored uses \<and> (returned \<longrightarrow> s' = s)"
  by (auto simp: agents_location_def split: prod.splits resolution.splits if_splits
      dest!: boxSelect_restores dest: agents_method_restores)

lemma showAgentsDialog_restores:
  "showAgentsDialog toString a s = (uses, returned, s') \<Longrightarrow>
     restored uses \<and> (returned \<longrightarrow> s' = s)"
  by (auto simp: showAgentsDialog_def split: prod.splits resolution.splits if_splits
      dest!: agents_wait_restores dest: agents_location_restores)

lemma command_terminal_restores:
  "command_terminal toString command a s = (uses, goes_on, s') \<Longrightarrow>
     restored uses \<and> (goes_on \<longrightarrow> s' = s)"
  by (auto simp: command_terminal_def split: if_splits dest: showAgentsDialog_restores)

lemma repl_pass_restores:
  assumes cooked: "\<not> isRaw s"
    and library: "\<forall>s. \<not> isRaw s \<longrightarrow> \<not> isRaw (library s)"
    and pass: "repl_pass toString library a s = (uses, goes_on, s')"
  shows "restored uses \<and> (goes_on \<longrightarrow> \<not> isRaw s')"
proof (cases "rawInput toString (piped a) (at_prompt a) s")
  case (Pair r s1)
  show ?thesis
  proof (cases r)
    case Pending
    with Pair pass show ?thesis by (simp add: repl_pass_def)
  next
    case (Resolved line)
    with Pair cooked have s1: "s1 = s" by (auto dest: rawInput_restores)
    show ?thesis
    proof (cases line)
      case None
      with Pair Resolved s1 pass show ?thesis by (auto simp: repl_pass_def)
    next
      case (Some input)
      obtain typed isSlash where input: "input = (typed, isSlash)" by (cases input)
      note line = Pair Resolved Some input s1
      consider (empty) "typed = []"
        | (slash) "typed \<noteq> []" "isSlash"
        | (command) "typed \<noteq> []" "\<not> isSlash" "prefix ''/'' typed"
        | (message) "typed \<noteq> []" "\<not> isSlash" "\<not> prefix ''/'' typed"
        by blast
      then show ?thesis
      proof cases
        case empty
        with pass line cooked show ?thesis by (auto simp: repl_pass_def)
      next
        case slash
        obtain r2 s2 where menu: "showSlashMenu toString (at_palette a) s = (r2, s2)"
          by (cases "showSlashMenu toString (at_palette a) s")
        show ?thesis
        proof (cases r2)
          case Pending
          with pass line slash menu show ?thesis by (auto simp: repl_pass_def)
        next
          case chosen: (Resolved cmd)
          with menu have s2: "s2 = s" by (auto dest: showSlashMenu_restores)
          show ?thesis
          proof (cases cmd)
            case None
            with pass line slash menu chosen s2 cooked show ?thesis
              by (auto simp: repl_pass_def)
          next
            case (Some name)
            obtain us on s3 where c: "command_terminal toString name a s = (us, on, s3)"
              by (cases "command_terminal toString name a s") auto
            from command_terminal_restores [OF c] have "restored us" "on \<longrightarrow> s3 = s"
              by simp_all
            with pass line slash menu chosen s2 Some c cooked show ?thesis
              by (auto simp: repl_pass_def)
          qed
        qed
      next
        case command
        show ?thesis
        proof (cases "repl_slash typed")
          case (Dispatch name)
          obtain us on s3 where c: "command_terminal toString name a s = (us, on, s3)"
            by (cases "command_terminal toString name a s") auto
          from command_terminal_restores [OF c] have "restored us" "on \<longrightarrow> s3 = s"
            by simp_all
          with pass line command Dispatch c cooked show ?thesis
            by (auto simp: repl_pass_def)
        next
          case (Report text_line)
          with pass line command cooked show ?thesis by (auto simp: repl_pass_def)
        next
          case OpenMenu
          with pass line command cooked show ?thesis by (auto simp: repl_pass_def)
        qed
      next
        case message
        with pass line cooked library show ?thesis by (auto simp: repl_pass_def)
      qed
    qed
  qed
qed

lemma repl_terminal_restores:
  assumes library: "\<forall>s. \<not> isRaw s \<longrightarrow> \<not> isRaw (library s)"
  shows "\<not> isRaw s \<Longrightarrow> restored (repl_terminal toString library passes s)"
proof (induction passes arbitrary: s)
  case Nil
  then show ?case by simp
next
  case (Cons a passes)
  obtain uses goes_on s1 where pass: "repl_pass toString library a s = (uses, goes_on, s1)"
    by (cases "repl_pass toString library a s") auto
  from repl_pass_restores [OF Cons.prems library pass]
  have uses: "restored uses" and on: "goes_on \<longrightarrow> \<not> isRaw s1" by simp_all
  show ?case
  proof (cases goes_on)
    case True
    with on have "\<not> isRaw s1" by simp
    from Cons.IH [OF this] uses pass True show ?thesis by simp
  next
    case False
    with uses pass show ?thesis by simp
  qed
qed

text \<open>
  Claim C8. The palette, the list selector, the text input and the wait for a key of the
  agents dialog leave the input stream as they found it whenever they resolve, whatever
  key ends them and whatever the mode was. \<^verbatim>\<open>rawInput\<close> switches raw mode off when it
  resolves, and the REPL, its only caller, enters it with raw mode off: started with raw
  mode off, and with readline prompts and a spinner that hand a stream with raw mode off
  back with raw mode off, every use of the terminal by a primitive over a run of the REPL
  ends with the input stream as it was when the primitive was entered.
\<close>

theorem raw_mode_restored:
  assumes cooked: "\<not> isRaw s0"
    and library: "\<forall>s. \<not> isRaw s \<longrightarrow> \<not> isRaw (library s)"
  shows "(showSlashMenu toString keys s = (Resolved r1, s1) \<longrightarrow> s1 = s) \<and>
         (boxSelect items keys s = (Resolved r2, s2) \<longrightarrow> s2 = s) \<and>
         (boxTextInput toString keys s = (Resolved r3, s3) \<longrightarrow> s3 = s) \<and>
         (agents_wait keys s = (Resolved r4, s4) \<longrightarrow> s4 = s) \<and>
         (rawInput toString incoming keys s0 = (Resolved r5, s5) \<longrightarrow> s5 = s0) \<and>
         (\<forall>u \<in> set (repl_terminal toString library passes s0). mode_after u = mode_before u)"
  using showSlashMenu_restores [of toString keys s r1 s1]
    boxSelect_restores [of items keys s r2 s2]
    boxTextInput_restores [of toString keys s r3 s3]
    agents_wait_restores [of keys s r4 s4]
    rawInput_restores [OF cooked, of toString incoming keys r5 s5]
    repl_terminal_restores [OF library cooked, of toString passes]
  by (simp add: restored_def)

lemma sample_session:
  "repl_terminal ascii (\<lambda>s. s) sample_passes cooked_terminal =
     [Acquisition LineInput cooked_terminal cooked_terminal,
      Acquisition Palette cooked_terminal cooked_terminal,
      Acquisition KeyWait cooked_terminal cooked_terminal,
      Acquisition ListSelect cooked_terminal cooked_terminal,
      Acquisition ListSelect cooked_terminal cooked_terminal,
      Acquisition LineInput cooked_terminal cooked_terminal,
      Acquisition LineInput cooked_terminal cooked_terminal]"
  by code_simp

lemma sample_keys:
  "fst (showSlashMenu ascii [key_down, key_down, key_enter] raw_terminal) = Resolved (Some ''/agents'')"
  "fst (boxSelect [''Project'', ''Personal''] [key_down, key_enter] raw_terminal) = Resolved 1"
  "fst (boxTextInput ascii [key_a, key_enter] raw_terminal) = Resolved (Some ''a'')"
  "fst (agents_wait [key_escape] raw_terminal) = Resolved ''esc''"
  "fst (rawInput ascii None [key_a, key_enter] cooked_terminal) = Resolved (Some (''a'', False))"
  by code_simp+

theorem raw_mode_restored_witness:
  "snd (showSlashMenu ascii [key_down, key_down, key_enter] raw_terminal) = raw_terminal \<and>
   snd (boxSelect [''Project'', ''Personal''] [key_down, key_enter] raw_terminal) = raw_terminal \<and>
   snd (boxTextInput ascii [key_a, key_enter] raw_terminal) = raw_terminal \<and>
   snd (agents_wait [key_escape] raw_terminal) = raw_terminal \<and>
   snd (rawInput ascii None [key_a, key_enter] cooked_terminal) = cooked_terminal \<and>
   length (repl_terminal ascii (\<lambda>s. s) sample_passes cooked_terminal) = 7 \<and>
   map mode_after (repl_terminal ascii (\<lambda>s. s) sample_passes cooked_terminal) =
     map mode_before (repl_terminal ascii (\<lambda>s. s) sample_passes cooked_terminal)"
proof -
  have cooked: "\<not> isRaw cooked_terminal" by (simp add: cooked_terminal_def)
  have library: "\<forall>s. \<not> isRaw s \<longrightarrow> \<not> isRaw ((\<lambda>s. s) s)" by simp
  have pairs:
    "showSlashMenu ascii [key_down, key_down, key_enter] raw_terminal =
       (Resolved (Some ''/agents''), snd (showSlashMenu ascii [key_down, key_down, key_enter] raw_terminal))"
    "boxSelect [''Project'', ''Personal''] [key_down, key_enter] raw_terminal =
       (Resolved 1, snd (boxSelect [''Project'', ''Personal''] [key_down, key_enter] raw_terminal))"
    "boxTextInput ascii [key_a, key_enter] raw_terminal =
       (Resolved (Some ''a''), snd (boxTextInput ascii [key_a, key_enter] raw_terminal))"
    "agents_wait [key_escape] raw_terminal =
       (Resolved ''esc'', snd (agents_wait [key_escape] raw_terminal))"
    "rawInput ascii None [key_a, key_enter] cooked_terminal =
       (Resolved (Some (''a'', False)), snd (rawInput ascii None [key_a, key_enter] cooked_terminal))"
    using sample_keys by (simp_all add: prod_eq_iff)
  note t = raw_mode_restored [OF cooked library, where toString = ascii and passes = sample_passes]
  from t [where keys = "[key_down, key_down, key_enter]" and s = raw_terminal] pairs(1)
  have a: "snd (showSlashMenu ascii [key_down, key_down, key_enter] raw_terminal) = raw_terminal"
    by blast
  from t [where keys = "[key_down, key_enter]" and s = raw_terminal
      and items = "[''Project'', ''Personal'']"] pairs(2)
  have b: "snd (boxSelect [''Project'', ''Personal''] [key_down, key_enter] raw_terminal) = raw_terminal"
    by blast
  from t [where keys = "[key_a, key_enter]" and s = raw_terminal and incoming = None] pairs(3) pairs(5)
  have c: "snd (boxTextInput ascii [key_a, key_enter] raw_terminal) = raw_terminal"
    and e: "snd (rawInput ascii None [key_a, key_enter] cooked_terminal) = cooked_terminal"
    by blast+
  from t [where keys = "[key_escape]" and s = raw_terminal] pairs(4)
  have d: "snd (agents_wait [key_escape] raw_terminal) = raw_terminal"
    by blast
  from t have "\<forall>u \<in> set (repl_terminal ascii (\<lambda>s. s) sample_passes cooked_terminal).
      mode_after u = mode_before u"
    by blast
  then have f: "map mode_after (repl_terminal ascii (\<lambda>s. s) sample_passes cooked_terminal) =
      map mode_before (repl_terminal ascii (\<lambda>s. s) sample_passes cooked_terminal)"
    by (simp add: map_eq_conv)
  have g: "length (repl_terminal ascii (\<lambda>s. s) sample_passes cooked_terminal) = 7"
    unfolding sample_session by simp
  from a b c d e f g show ?thesis by blast
qed

text \<open>
  Claim C9. When the input is not a terminal, \<^verbatim>\<open>boxSelect\<close> resolves with index 0 at
  once, while the palette and \<^verbatim>\<open>boxTextInput\<close> resolve with \<^verbatim>\<open>null\<close>; no key is
  read and the stream is not touched.
\<close>

theorem without_terminal:
  assumes "\<not> isTTY s"
  shows "boxSelect items keys s = (Resolved 0, s) \<and>
         showSlashMenu toString keys s = (Resolved None, s) \<and>
         boxTextInput toString keys s = (Resolved None, s)"
  using assms by (simp add: boxSelect_def showSlashMenu_def boxTextInput_def)

theorem without_terminal_witness:
  "\<not> isTTY \<lparr>isTTY = False, isRaw = False\<rparr> \<and>
   boxSelect [''Project'', ''Personal''] [key_down, key_enter] \<lparr>isTTY = False, isRaw = False\<rparr> =
     (Resolved 0, \<lparr>isTTY = False, isRaw = False\<rparr>) \<and>
   showSlashMenu ascii [key_enter] \<lparr>isTTY = False, isRaw = False\<rparr> =
     (Resolved None, \<lparr>isTTY = False, isRaw = False\<rparr>) \<and>
   boxTextInput ascii [key_a, key_enter] \<lparr>isTTY = False, isRaw = False\<rparr> =
     (Resolved None, \<lparr>isTTY = False, isRaw = False\<rparr>)"
proof -
  have tty: "\<not> isTTY \<lparr>isTTY = False, isRaw = False\<rparr>" by simp
  from without_terminal [OF tty, of "[''Project'', ''Personal'']" "[key_down, key_enter]"]
    without_terminal [OF tty, where toString = ascii and keys = "[key_enter]"]
    without_terminal [OF tty, where toString = ascii and keys = "[key_a, key_enter]"]
  show ?thesis by simp
qed

section \<open>The chat loop: what the tools and the loop leave untouched\<close>

lemma ask_requests [simp]: "requests (snd (ask q w)) = requests w"
  by (simp add: ask_def split: list.split)

lemma execToolRun_requests [simp]: "requests (snd (execToolRun h c w)) = requests w"
proof -
  let ?w0 = "console_log (newline # ''  $ '' @ template c) w"
  obtain a w1 where a: "ask ''  Run this command? (Y/n) '' ?w0 = (a, w1)"
    by (cases "ask ''  Run this command? (Y/n) '' ?w0")
  then have "requests w1 = requests w"
    using ask_requests [of "''  Run this command? (Y/n) ''" ?w0] by simp
  then show ?thesis
    unfolding execToolRun_def a
    by (simp add: Let_def split: outcome.split exec_outcome.split)
qed

lemma execToolEdit_requests [simp]: "requests (snd (execToolEdit h f c w)) = requests w"
proof (cases f)
  case None
  then show ?thesis by (simp add: execToolEdit_def)
next
  case (Some fp)
  show ?thesis
  proof (cases c)
    case None
    with Some show ?thesis by (simp add: execToolEdit_def)
  next
    case (Some body)
    let ?w0 = "console_log (newline # ''  Write: '' @ path_resolve h fp @ '' ('' @
                 show_nat (lineCount body) @ '' lines)'') w"
    obtain a w1 where a: "ask ''  Write this file? (Y/n) '' ?w0 = (a, w1)"
      by (cases "ask ''  Write this file? (Y/n) '' ?w0")
    then have "requests w1 = requests w"
      using ask_requests [of "''  Write this file? (Y/n) ''" ?w0] by simp
    then show ?thesis
      using \<open>f = Some fp\<close> Some a
      by (simp add: execToolEdit_def Let_def split: outcome.split option.split)
  qed
qed

lemma dispatchTool_requests [simp]: "requests (snd (dispatchTool h n a w)) = requests w"
  by (simp add: dispatchTool_def split: parsed.split)

lemma run_tools_requests [simp]: "requests (snd (run_tools h tcs api w)) = requests w"
proof (induction tcs arbitrary: api w)
  case Nil
  then show ?case by simp
next
  case (Cons tc tcs)
  obtain r w1 where d: "dispatchTool h (function_name tc)
      (parse_arguments h (function_arguments tc)) w = (r, w1)"
    by (cases "dispatchTool h (function_name tc) (parse_arguments h (function_arguments tc)) w")
  then have "requests w1 = requests w"
    by (metis dispatchTool_requests snd_conv)
  with Cons.IH d show ?case by (cases r) simp_all
qed

lemma print_alongside_requests [simp]: "requests (print_alongside c w) = requests w"
  by (simp add: print_alongside_def Let_def split: option.split)

lemma run_tools_appends:
  "run_tools h tcs api w = (Returned api', w') \<Longrightarrow>
     \<exists>results. length results = length tcs \<and> api' = api @ tool_messages tcs results"
proof (induction tcs arbitrary: api w)
  case Nil
  then show ?case by (simp add: tool_messages_def)
next
  case (Cons tc tcs)
  obtain r w1 where d: "dispatchTool h (function_name tc)
      (parse_arguments h (function_arguments tc)) w = (r, w1)"
    by (cases "dispatchTool h (function_name tc) (parse_arguments h (function_arguments tc)) w")
  from Cons.prems d obtain result where r: "r = Returned result"
    by (cases r) simp_all
  with Cons.prems d have
    "run_tools h tcs (api @ [ToolMessage (tool_output result) (call_id tc)]) w1 = (Returned api', w')"
    by simp
  from Cons.IH [OF this] obtain results where
    "length results = length tcs"
    "api' = (api @ [ToolMessage (tool_output result) (call_id tc)]) @ tool_messages tcs results"
    by blast
  then have "length (result # results) = length (tc # tcs) \<and>
      api' = api @ tool_messages (tc # tcs) (result # results)"
    by (simp add: tool_messages_def)
  then show ?case by blast
qed

text \<open>The ways one iteration on a response body can go.\<close>

lemma chat_loop_data_cases:
  assumes "chat_loop h (FetchData d # rest) api w = (res, w')"
  obtains
    (no_choice) "choices d = []" "res = Returned None"
      "w' = console_log (newline # ''  [error] No response from model.'')
              (w\<lparr>requests := requests w @ [api]\<rparr>)"
  | (final) c cs where "choices d = c # cs" "tool_calls (message c) = []"
      "res = Returned (Some \<lparr>r_content = clean_content (or_empty (msg_content (message c))),
                 r_promptTokens = usage_field prompt_tokens (usage d),
                 r_completionTokens = usage_field completion_tokens (usage d),
                 r_totalTokens = usage_field total_tokens (usage d)\<rparr>)"
      "requests w' = requests w @ [api]"
  | (stopped) c cs api' where "choices d = c # cs" "tool_calls (message c) \<noteq> []"
      "run_tools h (tool_calls (message c))
         (api @ [AssistantCalls (or_null (msg_content (message c))) (tool_calls (message c))])
         (print_alongside (msg_content (message c)) (w\<lparr>requests := requests w @ [api]\<rparr>))
       = (Returned api', w')"
      "stop_reason (finish_reason c)" "res = Returned None"
  | (continue) c cs api' w1 where "choices d = c # cs" "tool_calls (message c) \<noteq> []"
      "run_tools h (tool_calls (message c))
         (api @ [AssistantCalls (or_null (msg_content (message c))) (tool_calls (message c))])
         (print_alongside (msg_content (message c)) (w\<lparr>requests := requests w @ [api]\<rparr>))
       = (Returned api', w1)"
      "\<not> stop_reason (finish_reason c)" "chat_loop h rest api' w1 = (res, w')"
  | (threw) c cs e where "choices d = c # cs" "tool_calls (message c) \<noteq> []"
      "run_tools h (tool_calls (message c))
         (api @ [AssistantCalls (or_null (msg_content (message c))) (tool_calls (message c))])
         (print_alongside (msg_content (message c)) (w\<lparr>requests := requests w @ [api]\<rparr>))
       = (Threw e, w')"
      "res = Threw e"
  | (stalled) c cs where "choices d = c # cs" "tool_calls (message c) \<noteq> []"
      "run_tools h (tool_calls (message c))
         (api @ [AssistantCalls (or_null (msg_content (message c))) (tool_calls (message c))])
         (print_alongside (msg_content (message c)) (w\<lparr>requests := requests w @ [api]\<rparr>))
       = (Stalled, w')"
      "res = Stalled"
proof (cases "choices d")
  case Nil
  with assms show ?thesis by (intro no_choice) (simp_all add: Let_def)
next
  case (Cons c cs)
  show ?thesis
  proof (cases "tool_calls (message c) = []")
    case True
    with assms Cons show ?thesis
      by (intro final [of c cs]) (auto simp: Let_def split: if_splits)
  next
    case False
    let ?run = "run_tools h (tool_calls (message c))
         (api @ [AssistantCalls (or_null (msg_content (message c))) (tool_calls (message c))])
         (print_alongside (msg_content (message c)) (w\<lparr>requests := requests w @ [api]\<rparr>))"
    obtain r w1 where run: "?run = (r, w1)" by (cases ?run)
    show ?thesis
    proof (cases r)
      case (Returned api')
      show ?thesis
      proof (cases "stop_reason (finish_reason c)")
        case True
        with assms Cons False run Returned show ?thesis
          by (intro stopped [of c cs api']) (simp_all add: Let_def)
      next
        case nostop: False
        with assms Cons False run Returned show ?thesis
          by (intro continue [of c cs api' w1]) (simp_all add: Let_def)
      qed
    next
      case (Threw e)
      with assms Cons False run show ?thesis
        by (intro threw [of c cs e]) (simp_all add: Let_def)
    next
      case Stalled
      with assms Cons False run show ?thesis
        by (intro stalled [of c cs]) (simp_all add: Let_def)
    qed
  qed
qed

text \<open>
  A call of \<^verbatim>\<open>tool_edit\<close> whose arguments lack the path throws before the \<^verbatim>\<open>try\<close> of
  \<^verbatim>\<open>execToolEdit\<close>, and the exception ends the round and \<^verbatim>\<open>chat\<close>.
\<close>

lemma edit_without_path_throws:
  "dispatchTool h ''tool_edit'' (Object []) w = (Threw ''TypeError: the path must be of type string'', w)"
  by (simp add: dispatchTool_def execToolEdit_def)

lemma run_tools_throws:
  "dispatchTool h (function_name tc) (parse_arguments h (function_arguments tc)) w = (Threw e, w1) \<Longrightarrow>
     run_tools h (tc # tcs) api w = (Threw e, w1)"
  by simp

lemma chat_loop_sent:
  "chat_loop h script api w = (res, w') \<Longrightarrow>
     \<exists>sent. requests w' = requests w @ sent \<and> length sent \<le> length script \<and>
            (sent \<noteq> [] \<longrightarrow> hd sent = api)"
proof (induction script arbitrary: api w)
  case Nil
  then show ?case by simp
next
  case (Cons x script)
  show ?case
  proof (cases x)
    case (FetchFail e)
    with Cons.prems have "requests w' = requests w @ [api]" by auto
    then show ?thesis by simp
  next
    case (FetchData d)
    with Cons.prems have run: "chat_loop h (FetchData d # script) api w = (res, w')" by simp
    from run show ?thesis
    proof (cases rule: chat_loop_data_cases)
      case no_choice
      then have "requests w' = requests w @ [api]" by simp
      then show ?thesis by simp
    next
      case (final c cs)
      then show ?thesis by simp
    next
      case (stopped c cs api')
      then have "requests w' = requests w @ [api]"
        by (metis run_tools_requests print_alongside_requests snd_conv
            world.select_convs(5) world.surjective world.update_convs(5))
      then show ?thesis by simp
    next
      case (continue c cs api' w1)
      then have w1: "requests w1 = requests w @ [api]"
        by (metis run_tools_requests print_alongside_requests snd_conv
            world.select_convs(5) world.surjective world.update_convs(5))
      from Cons.IH [OF continue(5)] obtain sent where
        "requests w' = requests w1 @ sent" "length sent \<le> length script" by blast
      with w1 have "requests w' = requests w @ (api # sent) \<and>
          length (api # sent) \<le> length (FetchData d # script)" by simp
      then show ?thesis
        unfolding FetchData by (intro exI [of _ "api # sent"]) simp
    next
      case (threw c cs e)
      then have "requests w' = requests w @ [api]"
        by (metis run_tools_requests print_alongside_requests snd_conv
            world.select_convs(5) world.surjective world.update_convs(5))
      then show ?thesis by simp
    next
      case (stalled c cs)
      then have "requests w' = requests w @ [api]"
        by (metis run_tools_requests print_alongside_requests snd_conv
            world.select_convs(5) world.surjective world.update_convs(5))
      then show ?thesis by simp
    qed
  qed
qed

section \<open>The chat loop: the claims\<close>

lemma round_requests:
  "run_tools h tcs api1 (print_alongside c (w\<lparr>requests := requests w @ [api]\<rparr>)) = (r, w1) \<Longrightarrow>
     requests w1 = requests w @ [api]"
  by (metis run_tools_requests print_alongside_requests snd_conv
      world.select_convs(5) world.surjective world.update_convs(5))

text \<open>
  The transcript after a round of tool calls. Let a response carry N tool calls, N at
  least 1. When the loop over the calls completes, \<^verbatim>\<open>apiMessages\<close> has grown by the
  assistant entry with the calls and then exactly N tool entries, one per call in the
  order of the calls, each with the id of its call. And whenever the loop sends a further
  request after this response, the request that received the response carried \<open>api\<close>
  and the next request carries \<open>api\<close> followed by that assistant entry and those N tool
  entries.
\<close>

theorem tool_results_before_next_request:
  assumes run: "chat_loop h (FetchData d # script) api w = (res, w')"
    and first: "choices d = c # others"
    and calls: "tool_calls (message c) \<noteq> []"
  shows "(\<forall>api' w1.
            run_tools h (tool_calls (message c))
              (api @ [AssistantCalls (or_null (msg_content (message c))) (tool_calls (message c))])
              (print_alongside (msg_content (message c)) (w\<lparr>requests := requests w @ [api]\<rparr>))
              = (Returned api', w1) \<longrightarrow>
            (\<exists>results. length results = length (tool_calls (message c)) \<and>
               api' = api @ AssistantCalls (or_null (msg_content (message c))) (tool_calls (message c)) #
                        tool_messages (tool_calls (message c)) results)) \<and>
         (length (requests w) + 1 < length (requests w') \<longrightarrow>
            (\<exists>results. length results = length (tool_calls (message c)) \<and>
               requests w' ! length (requests w) = api \<and>
               requests w' ! (length (requests w) + 1) =
                 api @ AssistantCalls (or_null (msg_content (message c))) (tool_calls (message c)) #
                   tool_messages (tool_calls (message c)) results))"
proof (intro conjI allI impI)
  fix api' w1
  assume "run_tools h (tool_calls (message c))
      (api @ [AssistantCalls (or_null (msg_content (message c))) (tool_calls (message c))])
      (print_alongside (msg_content (message c)) (w\<lparr>requests := requests w @ [api]\<rparr>))
      = (Returned api', w1)"
  from run_tools_appends [OF this]
  show "\<exists>results. length results = length (tool_calls (message c)) \<and>
      api' = api @ AssistantCalls (or_null (msg_content (message c))) (tool_calls (message c)) #
               tool_messages (tool_calls (message c)) results"
    by simp
next
  assume again: "length (requests w) + 1 < length (requests w')"
  from run show "\<exists>results. length results = length (tool_calls (message c)) \<and>
     requests w' ! length (requests w) = api \<and>
     requests w' ! (length (requests w) + 1) =
       api @ AssistantCalls (or_null (msg_content (message c))) (tool_calls (message c)) #
         tool_messages (tool_calls (message c)) results"
  proof (cases rule: chat_loop_data_cases)
    case no_choice
    with first show ?thesis by simp
  next
    case (final c' cs)
    with first calls show ?thesis by simp
  next
    case (stopped c' cs api')
    from round_requests [OF stopped(3)] again show ?thesis by simp
  next
    case (continue c' cs api' w1)
    with first have c: "c' = c" by simp
    note w1 = round_requests [OF continue(3)]
    from chat_loop_sent [OF continue(5)] obtain sent where
      sent: "requests w' = requests w1 @ sent" "sent \<noteq> [] \<longrightarrow> hd sent = api'" by blast
    with w1 again have ne: "sent \<noteq> []" by auto
    with sent have "hd sent = api'" by simp
    with ne sent(1) w1 have nth: "requests w' ! length (requests w) = api"
      "requests w' ! (length (requests w) + 1) = api'"
      by (simp_all add: nth_append hd_conv_nth)
    from run_tools_appends [OF continue(3)] obtain results where
      "length results = length (tool_calls (message c'))"
      "api' = (api @ [AssistantCalls (or_null (msg_content (message c'))) (tool_calls (message c'))]) @
         tool_messages (tool_calls (message c')) results"
      by blast
    with nth c show ?thesis by auto
  next
    case (threw c' cs e)
    from round_requests [OF threw(3)] again show ?thesis by simp
  next
    case (stalled c' cs)
    from round_requests [OF stalled(3)] again show ?thesis by simp
  qed
qed

text \<open>
  Claim C2, as the code has it. A response without tool calls ends the loop: the content,
  stripped and trimmed, is returned with the three token counts of \<^verbatim>\<open>data.usage\<close>,
  zero where absent, and is printed when it is not empty. A response that carries tool
  calls and whose finish reason is \<^verbatim>\<open>stop\<close> or \<^verbatim>\<open>end_turn\<close> also ends the loop, once
  its tools have run, but \<^verbatim>\<open>chat\<close> then returns \<^verbatim>\<open>null\<close>: no content and no counts.
\<close>

theorem final_answer_or_stop:
  assumes first: "choices d = c # others"
  shows "(tool_calls (message c) = [] \<longrightarrow>
            chat_loop h (FetchData d # rest) api w =
              (Returned (Some \<lparr>r_content = clean_content (or_empty (msg_content (message c))),
                   r_promptTokens = usage_field prompt_tokens (usage d),
                   r_completionTokens = usage_field completion_tokens (usage d),
                   r_totalTokens = usage_field total_tokens (usage d)\<rparr>),
               if clean_content (or_empty (msg_content (message c))) \<noteq> []
               then console_log (newline # ''Chalk: '' @ clean_content (or_empty (msg_content (message c))))
                      (w\<lparr>requests := requests w @ [api]\<rparr>)
               else w\<lparr>requests := requests w @ [api]\<rparr>)) \<and>
         (tool_calls (message c) \<noteq> [] \<longrightarrow> stop_reason (finish_reason c) \<longrightarrow>
            run_tools h (tool_calls (message c))
              (api @ [AssistantCalls (or_null (msg_content (message c))) (tool_calls (message c))])
              (print_alongside (msg_content (message c)) (w\<lparr>requests := requests w @ [api]\<rparr>))
              = (Returned api', w1) \<longrightarrow>
            chat_loop h (FetchData d # rest) api w = (Returned None, w1))"
  using first by (simp add: Let_def)

lemma chat_loop_failure:
  assumes "chat_loop h script api w = (res, w')"
    and "length (requests w') = length (requests w) + n"
    and "k < n" and "script ! k = FetchFail e"
  shows "res = Returned None \<and> n = Suc k \<and> out w' \<noteq> [] \<and>
         last (out w') = newline # ''  [error] '' @ e"
  using assms
proof (induction script arbitrary: api w n k)
  case Nil
  then show ?case by simp
next
  case (Cons x script)
  show ?case
  proof (cases x)
    case (FetchFail e')
    with Cons.prems(1) have w': "res = Returned None"
      "w' = console_log (newline # ''  [error] '' @ e') (w\<lparr>requests := requests w @ [api]\<rparr>)"
      by auto
    with Cons.prems(2) have "n = 1" by simp
    with Cons.prems(3) have "k = 0" by simp
    with Cons.prems(4) FetchFail have "e' = e" by simp
    with w' \<open>n = 1\<close> \<open>k = 0\<close> show ?thesis by simp
  next
    case (FetchData d)
    with Cons.prems have run: "chat_loop h (FetchData d # script) api w = (res, w')" by simp
    have one: "requests w' = requests w @ [api] \<Longrightarrow> False"
    proof -
      assume "requests w' = requests w @ [api]"
      with Cons.prems(2) have "n = 1" by simp
      with Cons.prems(3) have "k = 0" by simp
      with Cons.prems(4) FetchData show False by simp
    qed
    from run show ?thesis
    proof (cases rule: chat_loop_data_cases)
      case no_choice
      then have "requests w' = requests w @ [api]" by simp
      then show ?thesis using one by simp
    next
      case (final c cs)
      then show ?thesis using one by simp
    next
      case (stopped c cs api')
      from round_requests [OF stopped(3)] show ?thesis using one by simp
    next
      case (continue c cs api' w1)
      note w1 = round_requests [OF continue(3)]
      from Cons.prems(4) FetchData obtain k' where k: "k = Suc k'"
        by (cases k) simp_all
      with Cons.prems(4) have fail: "script ! k' = FetchFail e" by simp
      from Cons.prems(3) k obtain n' where n: "n = Suc n'" by (cases n) simp_all
      with Cons.prems(2) w1 have len: "length (requests w') = length (requests w1) + n'"
        by simp
      from Cons.prems(3) k n have "k' < n'" by simp
      from Cons.IH [OF continue(5) len this fail] k n show ?thesis by simp
    next
      case (threw c cs e')
      from round_requests [OF threw(3)] show ?thesis using one by simp
    next
      case (stalled c cs)
      from round_requests [OF stalled(3)] show ?thesis using one by simp
    qed
  qed
qed

text \<open>
  Claim C3. If any request sent during a turn fails (the \<^verbatim>\<open>catch\<close> of lines 1675-1678:
  network failure, timeout, status outside 2xx), it is the last request of the turn,
  \<^verbatim>\<open>chat\<close> returns \<^verbatim>\<open>null\<close> with the error as the last line printed, and the session
  after the turn is the session before it with the user message appended: no assistant
  message, counters unchanged.
\<close>

theorem failed_request_aborts_turn:
  assumes run: "repl_turn h systemPrompt userText script ctx w = (res, w')"
    and sent: "length (requests w') = length (requests w) + n"
    and during: "k < n"
    and failed: "script ! k = FetchFail e"
  shows "chat h systemPrompt (messages ctx @ [\<lparr>role = User, content = userText\<rparr>]) script w =
           (Returned None, w') \<and>
         n = Suc k \<and>
         last (out w') = newline # ''  [error] '' @ e \<and>
         res = Returned (ctx\<lparr>messages := messages ctx @ [\<lparr>role = User, content = userText\<rparr>]\<rparr>)"
proof -
  let ?msgs = "messages ctx @ [\<lparr>role = User, content = userText\<rparr>]"
  obtain r w1 where c: "chat h systemPrompt ?msgs script w = (r, w1)"
    by (cases "chat h systemPrompt ?msgs script w")
  with run have w1: "w1 = w'"
    by (auto simp: repl_turn_def Let_def split: outcome.splits option.splits)
  from c w1 have "chat_loop h script
      (Plain System systemPrompt # map (\<lambda>m. Plain (role m) (content m)) ?msgs) w = (r, w')"
    by (simp add: chat_def)
  from chat_loop_failure [OF this sent during failed]
  have r: "r = Returned None" "n = Suc k" "last (out w') = newline # ''  [error] '' @ e"
    by simp_all
  with run c w1 have "res = Returned (ctx\<lparr>messages := ?msgs\<rparr>)"
    by (simp add: repl_turn_def Let_def)
  with r c w1 show ?thesis by simp
qed

lemma chat_loop_tokens:
  assumes "chat_loop h script api w = (Returned (Some r), w')"
    and "length (requests w') = length (requests w) + n"
  shows "0 < n \<and> n \<le> length script \<and>
         (\<exists>d. script ! (n - 1) = FetchData d \<and>
              r_promptTokens r = usage_field prompt_tokens (usage d) \<and>
              r_completionTokens r = usage_field completion_tokens (usage d) \<and>
              r_totalTokens r = usage_field total_tokens (usage d))"
  using assms
proof (induction script arbitrary: api w n)
  case Nil
  then show ?case by simp
next
  case (Cons x script)
  show ?case
  proof (cases x)
    case (FetchFail e')
    with Cons.prems(1) show ?thesis by simp
  next
    case (FetchData d)
    with Cons.prems have run: "chat_loop h (FetchData d # script) api w = (Returned (Some r), w')"
      by simp
    from run show ?thesis
    proof (cases rule: chat_loop_data_cases)
      case no_choice
      then show ?thesis by simp
    next
      case (final c cs)
      with Cons.prems(2) have "n = 1" by simp
      with final FetchData show ?thesis by auto
    next
      case (stopped c cs api')
      then show ?thesis by simp
    next
      case (continue c cs api' w1)
      note w1 = round_requests [OF continue(3)]
      from chat_loop_sent [OF continue(5)] w1 Cons.prems(2)
      obtain n' where n: "n = Suc n'" by (cases n) auto
      with Cons.prems(2) w1 have len: "length (requests w') = length (requests w1) + n'"
        by simp
      from Cons.IH [OF continue(5) len] obtain d' where
        "0 < n'" "n' \<le> length script" "script ! (n' - 1) = FetchData d'"
        "r_promptTokens r = usage_field prompt_tokens (usage d')"
        "r_completionTokens r = usage_field completion_tokens (usage d')"
        "r_totalTokens r = usage_field total_tokens (usage d')"
        by blast
      with n FetchData show ?thesis by (cases n') auto
    next
      case (threw c cs e')
      then show ?thesis by simp
    next
      case (stalled c cs)
      then show ?thesis by simp
    qed
  qed
qed

lemma tool_round_usage_ignored:
  "choices d = c # cs \<Longrightarrow> tool_calls (message c) \<noteq> [] \<Longrightarrow>
     chat_loop h (FetchData (d\<lparr>usage := u\<rparr>) # rest) api w = chat_loop h (FetchData d # rest) api w"
  by (simp add: Let_def)

text \<open>
  Claim C10. When \<^verbatim>\<open>chat\<close> returns a result after \<open>k + 1\<close> requests, the counts it
  returns are those of the usage of the last response, zero where absent, and the REPL
  adds exactly these to the session counters. The usage of a response that carries tool
  calls has no effect on the run at all.
\<close>

theorem tokens_from_final_response:
  assumes run: "chat h systemPrompt (messages ctx @ [\<lparr>role = User, content = userText\<rparr>]) script w =
                  (Returned (Some r), w')"
    and sent: "length (requests w') = length (requests w) + Suc k"
  shows "(\<exists>d ctx'. k < length script \<and> script ! k = FetchData d \<and>
            r_promptTokens r = usage_field prompt_tokens (usage d) \<and>
            r_completionTokens r = usage_field completion_tokens (usage d) \<and>
            r_totalTokens r = usage_field total_tokens (usage d) \<and>
            repl_turn h systemPrompt userText script ctx w = (Returned ctx', w') \<and>
            promptTokens ctx' = promptTokens ctx + usage_field prompt_tokens (usage d) \<and>
            completionTokens ctx' = completionTokens ctx + usage_field completion_tokens (usage d) \<and>
            totalTokens ctx' = totalTokens ctx + usage_field total_tokens (usage d)) \<and>
         (\<forall>d0 c cs u rest api w0.
            choices d0 = c # cs \<longrightarrow> tool_calls (message c) \<noteq> [] \<longrightarrow>
            chat_loop h (FetchData (d0\<lparr>usage := u\<rparr>) # rest) api w0 =
              chat_loop h (FetchData d0 # rest) api w0)"
proof -
  from run have "chat_loop h script
      (Plain System systemPrompt #
         map (\<lambda>m. Plain (role m) (content m)) (messages ctx @ [\<lparr>role = User, content = userText\<rparr>]))
      w = (Returned (Some r), w')"
    by (simp add: chat_def)
  from chat_loop_tokens [OF this sent] obtain d where d:
    "Suc k \<le> length script" "script ! k = FetchData d"
    "r_promptTokens r = usage_field prompt_tokens (usage d)"
    "r_completionTokens r = usage_field completion_tokens (usage d)"
    "r_totalTokens r = usage_field total_tokens (usage d)"
    by auto
  obtain ctx' where turn: "repl_turn h systemPrompt userText script ctx w = (Returned ctx', w')"
    and counts: "promptTokens ctx' = promptTokens ctx + r_promptTokens r"
      "completionTokens ctx' = completionTokens ctx + r_completionTokens r"
      "totalTokens ctx' = totalTokens ctx + r_totalTokens r"
    using run by (simp add: repl_turn_def Let_def)
  from d turn counts have "\<exists>d ctx'. k < length script \<and> script ! k = FetchData d \<and>
            r_promptTokens r = usage_field prompt_tokens (usage d) \<and>
            r_completionTokens r = usage_field completion_tokens (usage d) \<and>
            r_totalTokens r = usage_field total_tokens (usage d) \<and>
            repl_turn h systemPrompt userText script ctx w = (Returned ctx', w') \<and>
            promptTokens ctx' = promptTokens ctx + usage_field prompt_tokens (usage d) \<and>
            completionTokens ctx' = completionTokens ctx + usage_field completion_tokens (usage d) \<and>
            totalTokens ctx' = totalTokens ctx + usage_field total_tokens (usage d)"
    by (intro exI [of _ d] exI [of _ ctx']) simp
  then show ?thesis using tool_round_usage_ignored by blast
qed

section \<open>The chat loop on the sample turn\<close>

lemma sample_turn:
  "chat_loop sample_host [FetchData tool_round, FetchData final_round] asked (start [''n'']) =
   (Returned (Some \<lparr>r_content = ''Done'', r_promptTokens = 7, r_completionTokens = 0,
                     r_totalTokens = 9\<rparr>),
    \<lparr>out = [newline # ''  $ ls'', ''  Run this command? (Y/n) '', newline # ''Chalk: Done''],
     answers = [], ran = [], written = [],
     requests = [asked, asked @ [AssistantCalls None sample_calls,
        ToolMessage ''User denied command execution.'' ''call_1'',
        ToolMessage ''Unknown tool: lookup'' ''call_2'']]\<rparr>)"
  by code_simp

lemma sample_chat:
  "chat sample_host ''sys'' (messages fresh @ [\<lparr>role = User, content = ''list files''\<rparr>])
     [FetchData tool_round, FetchData final_round] (start [''n'']) =
   (Returned (Some \<lparr>r_content = ''Done'', r_promptTokens = 7, r_completionTokens = 0,
                     r_totalTokens = 9\<rparr>),
    \<lparr>out = [newline # ''  $ ls'', ''  Run this command? (Y/n) '', newline # ''Chalk: Done''],
     answers = [], ran = [], written = [],
     requests = [asked, asked @ [AssistantCalls None sample_calls,
        ToolMessage ''User denied command execution.'' ''call_1'',
        ToolMessage ''Unknown tool: lookup'' ''call_2'']]\<rparr>)"
  by code_simp

lemma sample_failed_turn:
  "repl_turn sample_host ''sys'' ''list files''
     [FetchData tool_round, FetchFail ''API 500: down''] fresh (start [''n'']) =
   (Returned \<lparr>messages = [\<lparr>role = User, content = ''list files''\<rparr>],
              totalTokens = 0, promptTokens = 0, completionTokens = 0\<rparr>,
    \<lparr>out = [newline # ''  $ ls'', ''  Run this command? (Y/n) '',
            newline # ''  [error] API 500: down''],
     answers = [], ran = [], written = [],
     requests = [asked, asked @ [AssistantCalls None sample_calls,
        ToolMessage ''User denied command execution.'' ''call_1'',
        ToolMessage ''Unknown tool: lookup'' ''call_2'']]\<rparr>)"
  by code_simp

lemma sample_final:
  "chat_loop sample_host [FetchData final_round] asked (start []) =
   (Returned (Some \<lparr>r_content = ''Done'', r_promptTokens = 7, r_completionTokens = 0,
                     r_totalTokens = 9\<rparr>),
    \<lparr>out = [newline # ''Chalk: Done''], answers = [], ran = [], written = [],
     requests = [asked]\<rparr>)"
  by code_simp

lemma sample_stop:
  "chat_loop sample_host [FetchData stop_round] asked (start []) =
   (Returned None,
    \<lparr>out = [newline # ''Chalk: Done.''], answers = [], ran = [], written = [],
     requests = [asked]\<rparr>)"
  by code_simp

lemma sample_stop_tools:
  "run_tools sample_host [ToolCall ''call_9'' ''lookup'' (ArgText ''{}'')]
     (asked @ [AssistantCalls (Some ''Done.'') [ToolCall ''call_9'' ''lookup'' (ArgText ''{}'')]])
     (print_alongside (Some ''Done.'') ((start [])\<lparr>requests := requests (start []) @ [asked]\<rparr>)) =
   (Returned (asked @ [AssistantCalls (Some ''Done.'') [ToolCall ''call_9'' ''lookup'' (ArgText ''{}'')],
                       ToolMessage ''Unknown tool: lookup'' ''call_9'']),
    \<lparr>out = [newline # ''Chalk: Done.''], answers = [], ran = [], written = [],
     requests = [asked]\<rparr>)"
  by code_simp

lemma sample_tools:
  "run_tools sample_host sample_calls (asked @ [AssistantCalls None sample_calls])
     (print_alongside None ((start [''n''])\<lparr>requests := requests (start [''n'']) @ [asked]\<rparr>)) =
   (Returned (asked @ [AssistantCalls None sample_calls,
        ToolMessage ''User denied command execution.'' ''call_1'',
        ToolMessage ''Unknown tool: lookup'' ''call_2'']),
    \<lparr>out = [newline # ''  $ ls'', ''  Run this command? (Y/n) ''],
     answers = [], ran = [], written = [], requests = [asked]\<rparr>)"
  by code_simp

theorem tool_results_before_next_request_witness:
  "(\<exists>results. length results = 2 \<and>
      asked @ [AssistantCalls None sample_calls,
        ToolMessage ''User denied command execution.'' ''call_1'',
        ToolMessage ''Unknown tool: lookup'' ''call_2''] =
      asked @ AssistantCalls None sample_calls # tool_messages sample_calls results) \<and>
   (\<exists>results. length results = 2 \<and>
     requests (snd (chat_loop sample_host [FetchData tool_round, FetchData final_round] asked
                      (start [''n''])))
       ! 1 =
     asked @ AssistantCalls None sample_calls # tool_messages sample_calls results)"
proof -
  let ?c = "\<lparr>message = \<lparr>msg_content = None, tool_calls = sample_calls\<rparr>,
             finish_reason = Some ''tool_calls''\<rparr>"
  have first: "choices tool_round = ?c # []" by (simp add: tool_round_def)
  have calls: "tool_calls (message ?c) \<noteq> []" by (simp add: sample_calls_def)
  have two: "length sample_calls = 2" by (simp add: sample_calls_def)
  note both = tool_results_before_next_request [OF sample_turn first calls]
  from both have round: "\<exists>results. length results = 2 \<and>
      asked @ [AssistantCalls None sample_calls,
        ToolMessage ''User denied command execution.'' ''call_1'',
        ToolMessage ''Unknown tool: lookup'' ''call_2''] =
      asked @ AssistantCalls None sample_calls # tool_messages sample_calls results"
    using sample_tools by (simp del: run_tools.simps add: or_null_def two)
  from both have sent: "\<exists>results. length results = 2 \<and>
     requests (snd (chat_loop sample_host [FetchData tool_round, FetchData final_round] asked
                      (start [''n''])))
       ! 1 =
     asked @ AssistantCalls None sample_calls # tool_messages sample_calls results"
    unfolding sample_turn by (simp add: start_def or_null_def two)
  from round sent show ?thesis by blast
qed

text \<open>
  Claim C1 at a response with one call of \<^verbatim>\<open>tool_edit\<close> whose arguments are the empty
  object. The arguments parse, \<^verbatim>\<open>execToolEdit\<close> throws before its \<^verbatim>\<open>try\<close>, and the
  exception ends \<^verbatim>\<open>chat\<close> and the turn: no tool entry is appended for the call and
  the second response is never requested. The same call of \<^verbatim>\<open>tool_run\<close> is answered
  with a tool entry, since \<^verbatim>\<open>execSync\<close> is called inside the \<^verbatim>\<open>try\<close>.
\<close>

theorem edit_call_without_arguments:
  "parse_arguments sample_host (ArgText ''{}'') = Object [] \<and>
   chat_loop sample_host [FetchData edit_round, FetchData final_round] asked (start [''y'']) =
     (Threw ''TypeError: the path must be of type string'',
      \<lparr>out = [], answers = [''y''], ran = [], written = [], requests = [asked]\<rparr>) \<and>
   repl_turn sample_host ''sys'' ''list files'' [FetchData edit_round, FetchData final_round]
       fresh (start [''y'']) =
     (Threw ''TypeError: the path must be of type string'',
      \<lparr>out = [], answers = [''y''], ran = [], written = [], requests = [asked]\<rparr>) \<and>
   requests (snd (chat_loop sample_host [FetchData run_round, FetchData final_round] asked
                    (start [''y''])))
     = [asked,
        asked @ [AssistantCalls None [ToolCall ''call_1'' ''tool_run'' (ArgText ''{}'')],
                 ToolMessage ''The command argument must be of type string'' ''call_1'']]"
  by code_simp

lemma sample_clean: "clean_content ''<think>plan</think> Done'' = ''Done''"
  by code_simp

theorem final_answer_or_stop_witness:
  "chat_loop sample_host [FetchData final_round] asked (start []) =
     (Returned (Some \<lparr>r_content = ''Done'', r_promptTokens = 7, r_completionTokens = 0,
                       r_totalTokens = 9\<rparr>),
      console_log (newline # ''Chalk: Done'') ((start [])\<lparr>requests := requests (start []) @ [asked]\<rparr>)) \<and>
   chat_loop sample_host [FetchData stop_round] asked (start []) =
     (Returned None,
      \<lparr>out = [newline # ''Chalk: Done.''], answers = [], ran = [], written = [],
       requests = [asked]\<rparr>)"
proof -
  have a: "choices final_round =
      \<lparr>message = \<lparr>msg_content = Some ''<think>plan</think> Done'', tool_calls = []\<rparr>,
       finish_reason = Some ''stop''\<rparr> # []"
    by (simp add: final_round_def)
  have b: "choices stop_round =
      \<lparr>message = \<lparr>msg_content = Some ''Done.'',
                  tool_calls = [ToolCall ''call_9'' ''lookup'' (ArgText ''{}'')]\<rparr>,
       finish_reason = Some ''stop''\<rparr> # []"
    by (simp add: stop_round_def)
  have u: "usage final_round =
      Some \<lparr>prompt_tokens = Some 7, completion_tokens = None, total_tokens = Some 9\<rparr>"
    by (simp add: final_round_def)
  from final_answer_or_stop [OF a, where h = sample_host and api = asked and w = "start []"
      and rest = "[]"]
  have one: "chat_loop sample_host [FetchData final_round] asked (start []) =
     (Returned (Some \<lparr>r_content = ''Done'', r_promptTokens = 7, r_completionTokens = 0,
                       r_totalTokens = 9\<rparr>),
      console_log (newline # ''Chalk: Done'') ((start [])\<lparr>requests := requests (start []) @ [asked]\<rparr>))"
    by (simp del: chat_loop.simps add: sample_clean or_empty_def usage_field_def or_zero_def u)
  from final_answer_or_stop [OF b, where h = sample_host and api = asked and w = "start []"
      and rest = "[]"
      and api' = "asked @ [AssistantCalls (Some ''Done.'')
                     [ToolCall ''call_9'' ''lookup'' (ArgText ''{}'')],
                   ToolMessage ''Unknown tool: lookup'' ''call_9'']"
      and ?w1.0 = "\<lparr>out = [newline # ''Chalk: Done.''], answers = [], ran = [], written = [],
                 requests = [asked]\<rparr>"]
  have two: "chat_loop sample_host [FetchData stop_round] asked (start []) =
     (Returned None,
      \<lparr>out = [newline # ''Chalk: Done.''], answers = [], ran = [], written = [],
       requests = [asked]\<rparr>)"
    by (simp del: chat_loop.simps run_tools.simps
        add: sample_stop_tools or_null_def stop_reason_def)
  from one two show ?thesis by blast
qed

text \<open>
  The claim as written fails: the finish reason of this response is \<^verbatim>\<open>stop\<close>, it has
  content and usage, and \<^verbatim>\<open>chat\<close> returns \<^verbatim>\<open>null\<close>. And a final answer whose content
  is empty once stripped is returned but not printed.
\<close>

theorem final_answer_or_stop_counterexample:
  "stop_reason (finish_reason (hd (choices stop_round))) \<and>
   msg_content (message (hd (choices stop_round))) = Some ''Done.'' \<and>
   usage stop_round = Some \<lparr>prompt_tokens = Some 10, completion_tokens = Some 5,
                              total_tokens = Some 15\<rparr> \<and>
   fst (chat sample_host ''sys'' [\<lparr>role = User, content = ''list files''\<rparr>]
          [FetchData stop_round] (start [])) = Returned None \<and>
   chat sample_host ''sys'' [\<lparr>role = User, content = ''list files''\<rparr>]
          [FetchData silent_round] (start []) =
     (Returned (Some \<lparr>r_content = [], r_promptTokens = 0, r_completionTokens = 0,
                       r_totalTokens = 0\<rparr>),
      \<lparr>out = [], answers = [], ran = [], written = [], requests = [asked]\<rparr>)"
  by code_simp

theorem failed_request_aborts_turn_witness:
  "fst (repl_turn sample_host ''sys'' ''list files''
          [FetchData tool_round, FetchFail ''API 500: down''] fresh (start [''n''])) =
     Returned (fresh\<lparr>messages := messages fresh @ [\<lparr>role = User, content = ''list files''\<rparr>]\<rparr>) \<and>
   last (out (snd (repl_turn sample_host ''sys'' ''list files''
          [FetchData tool_round, FetchFail ''API 500: down''] fresh (start [''n''])))) =
     newline # ''  [error] API 500: down''"
  using failed_request_aborts_turn [OF sample_failed_turn, of 2 1 "''API 500: down''"]
  unfolding sample_failed_turn
  by (simp add: start_def)

theorem tokens_from_final_response_witness:
  "\<exists>ctx'. fst (repl_turn sample_host ''sys'' ''list files''
                  [FetchData tool_round, FetchData final_round] fresh (start [''n''])) =
             Returned ctx' \<and>
          promptTokens ctx' = 7 \<and> completionTokens ctx' = 0 \<and> totalTokens ctx' = 9"
proof -
  have sent: "length (requests \<lparr>out = [newline # ''  $ ls'', ''  Run this command? (Y/n) '',
         newline # ''Chalk: Done''],
     answers = [], ran = [], written = [],
     requests = [asked, asked @ [AssistantCalls None sample_calls,
        ToolMessage ''User denied command execution.'' ''call_1'',
        ToolMessage ''Unknown tool: lookup'' ''call_2'']]\<rparr>) =
     length (requests (start [''n''])) + Suc 1"
    by (simp add: start_def)
  from tokens_from_final_response [OF sample_chat sent]
  obtain d ctx' where
    d: "[FetchData tool_round, FetchData final_round] ! 1 = FetchData d"
    and turn: "fst (repl_turn sample_host ''sys'' ''list files''
       [FetchData tool_round, FetchData final_round] fresh (start [''n''])) = Returned ctx'"
    and counts: "promptTokens ctx' = promptTokens fresh + usage_field prompt_tokens (usage d)"
    "completionTokens ctx' = completionTokens fresh + usage_field completion_tokens (usage d)"
    "totalTokens ctx' = totalTokens fresh + usage_field total_tokens (usage d)"
    by fastforce
  from d have "d = final_round" by simp
  with counts have "promptTokens ctx' = 7 \<and> completionTokens ctx' = 0 \<and> totalTokens ctx' = 9"
    by (simp add: final_round_def usage_field_def or_zero_def fresh_def)
  with turn show ?thesis by blast
qed

end
